theory Spec2Isabelle
  imports Main "HOL-Library.AList" "HOL-Library.Multiset"
begin

section \<open>HarnessSync: the synchronisation engine\<close>

text \<open>
  A shallow embedding of the Python sources of the HarnessSync plugin
  (\<^verbatim>\<open>src/plugins/HarnessSync/src\<close>): the result record, the secret detector,
  the scoped MCP discovery of the source reader, the adapter contract, the state manager
  and the orchestrator.

  Conventions. A Python \<^verbatim>\<open>dict\<close> is an association list with distinct keys in
  insertion order; \<^verbatim>\<open>d[k] = v\<close> is \<^const>\<open>AList.update\<close>, which overwrites in
  place and appends a new key at the end, as Python does. A \<^verbatim>\<open>raise\<close> is the left
  injection of a sum. Python's \<^verbatim>\<open>int\<close> is \<^typ>\<open>int\<close>. A \<^verbatim>\<open>str\<close> is a
  \<^typ>\<open>string\<close>, a character outside ASCII being the bytes of its UTF-8 encoding,
  which are all outside ASCII.
  A reading of the clock (\<^verbatim>\<open>datetime.now().isoformat()\<close>) is an argument
  \<open>now\<close> of the function that reads it.
\<close>

subsection \<open>Python values\<close>

text \<open>
  Values read from JSON documents. A float is given by mantissa and binary exponent; the
  functions below pass such values on without computing with them.
\<close>

datatype json =
    JNull
  | JBool bool
  | JNum int
  | JFloat int int
  | JStr string
  | JArr "json list"
  | JObj "(string \<times> json) list"

text \<open>An exception of class \<^verbatim>\<open>Exception\<close>, with the text \<^verbatim>\<open>str(e)\<close> gives.\<close>

datatype pyexn = PyException string

type_synonym ('k, 'v) pydict = "('k \<times> 'v) list"

definition dict_get :: "('k, 'v) pydict \<Rightarrow> 'k \<Rightarrow> 'v option" where
  "dict_get d k = map_of d k"

definition dict_keys :: "('k, 'v) pydict \<Rightarrow> 'k list" where
  "dict_keys d = map fst d"

definition dict_set :: "('k, 'v) pydict \<Rightarrow> 'k \<Rightarrow> 'v \<Rightarrow> ('k, 'v) pydict" where
  "dict_set d k v = AList.update k v d"

text \<open>\<^verbatim>\<open>d.get(k, default)\<close>.\<close>

definition dict_get_or :: "('k, 'v) pydict \<Rightarrow> 'k \<Rightarrow> 'v \<Rightarrow> 'v" where
  "dict_get_or d k dflt = (case dict_get d k of None \<Rightarrow> dflt | Some v \<Rightarrow> v)"

text \<open>\<^verbatim>\<open>d.update(other)\<close>: the entries of \<open>other\<close> are stored one by one, in order.\<close>

fun dict_update :: "('k, 'v) pydict \<Rightarrow> ('k, 'v) pydict \<Rightarrow> ('k, 'v) pydict" where
  "dict_update d [] = d"
| "dict_update d ((k, v) # other) = dict_update (dict_set d k v) other"

subsection \<open>Strings\<close>

definition ascii_lowercase :: string where
  "ascii_lowercase = ''abcdefghijklmnopqrstuvwxyz''"

definition ascii_uppercase :: string where
  "ascii_uppercase = ''ABCDEFGHIJKLMNOPQRSTUVWXYZ''"

definition digits :: string where
  "digits = ''0123456789''"

definition upper_char :: "char \<Rightarrow> char" where
  "upper_char c =
     (case map_of (zip ascii_lowercase ascii_uppercase) c of Some u \<Rightarrow> u | None \<Rightarrow> c)"

definition is_ascii :: "char \<Rightarrow> bool" where
  "is_ascii c = (\<not> digit7 c)"

text \<open>
  \<^verbatim>\<open>s.upper()\<close>. On an ASCII string it maps \<open>a\<close> to \<open>z\<close> to \<open>A\<close> to \<open>Z\<close> and
  leaves the other characters. On any other string it follows the Unicode case mapping of
  the Python runtime (which may change the length, as for the sharp s), here the
  argument \<open>u\<close>, of which nothing is assumed.
\<close>

definition upper :: "(string \<Rightarrow> string) \<Rightarrow> string \<Rightarrow> string" where
  "upper u s = (if list_all is_ascii s then map upper_char s else u s)"

text \<open>\<^verbatim>\<open>s.startswith(p)\<close>.\<close>

fun startswith :: "string \<Rightarrow> string \<Rightarrow> bool" where
  "startswith s [] = True"
| "startswith [] (p # ps) = False"
| "startswith (c # s) (p # ps) = (c = p \<and> startswith s ps)"

text \<open>\<^verbatim>\<open>k in s\<close> for strings: \<open>k\<close> occurs in \<open>s\<close> as a contiguous substring.\<close>

fun py_in :: "string \<Rightarrow> string \<Rightarrow> bool" where
  "py_in k [] = (k = [])"
| "py_in k (c # s) = (startswith (c # s) k \<or> py_in k s)"

text \<open>\<^verbatim>\<open>sep.join(xs)\<close>.\<close>

fun join :: "string \<Rightarrow> string list \<Rightarrow> string" where
  "join sep [] = []"
| "join sep [x] = x"
| "join sep (x # y # ys) = x @ sep @ join sep (y # ys)"

definition digit_char :: "nat \<Rightarrow> char" where
  "digit_char d = digits ! d"

function str_nat :: "nat \<Rightarrow> string" where
  "str_nat n = (if n < 10 then [digit_char n] else str_nat (n div 10) @ [digit_char (n mod 10)])"
  by pat_completeness auto
termination
  by (relation "measure id") auto

text \<open>\<^verbatim>\<open>str(i)\<close> for an integer: its decimal digits, with a sign when negative.\<close>

definition str_int :: "int \<Rightarrow> string" where
  "str_int i = (if i < 0 then CHR ''-'' # str_nat (nat (- i)) else str_nat (nat i))"

subsection \<open>The result record (adapters/result.py)\<close>

record SyncResult =
  synced :: int
  skipped :: int
  failed :: int
  adapted :: int
  synced_files :: "string list"
  skipped_files :: "string list"
  failed_files :: "string list"

text \<open>\<^verbatim>\<open>SyncResult()\<close>: every counter 0, every list empty.\<close>

definition SyncResult0 :: SyncResult where
  "SyncResult0 =
     \<lparr>synced = 0, skipped = 0, failed = 0, adapted = 0,
      synced_files = [], skipped_files = [], failed_files = []\<rparr>"

definition merge :: "SyncResult \<Rightarrow> SyncResult \<Rightarrow> SyncResult" where
  "merge self other =
     \<lparr>synced = synced self + synced other,
      skipped = skipped self + skipped other,
      failed = failed self + failed other,
      adapted = adapted self + adapted other,
      synced_files = synced_files self @ synced_files other,
      skipped_files = skipped_files self @ skipped_files other,
      failed_files = failed_files self @ failed_files other\<rparr>"

definition total :: "SyncResult \<Rightarrow> int" where
  "total self = synced self + skipped self + failed self"

definition status :: "SyncResult \<Rightarrow> string" where
  "status self =
     (if total self = 0 then ''nothing''
      else if failed self = 0 then ''success''
      else if synced self > 0 \<and> failed self > 0 then ''partial''
      else ''failed'')"

text \<open>
  The status function as section 3 of the specification words it, on the three counters:
  \<open>nothing\<close> if the total is 0, \<open>success\<close> if \<open>failed = 0\<close>, \<open>failed\<close> if
  \<open>synced = 0\<close> and \<open>failed > 0\<close>, else \<open>partial\<close>.
\<close>

definition spec_status :: "int \<Rightarrow> int \<Rightarrow> int \<Rightarrow> string" where
  "spec_status n_synced n_skipped n_failed =
     (if n_synced + n_skipped + n_failed = 0 then ''nothing''
      else if n_failed = 0 then ''success''
      else if n_synced = 0 \<and> n_failed > 0 then ''failed''
      else ''partial'')"

subsection \<open>The secret detector (secret\_detector.py)\<close>

definition SECRET_KEYWORDS :: "string list" where
  "SECRET_KEYWORDS =
     [''API_KEY'', ''APIKEY'', ''API-KEY'',
      ''SECRET'', ''SECRET_KEY'',
      ''PASSWORD'', ''PASSWD'', ''PWD'',
      ''TOKEN'', ''ACCESS_TOKEN'', ''AUTH_TOKEN'',
      ''PRIVATE_KEY'']"

definition SAFE_PREFIXES :: "string list" where
  "SAFE_PREFIXES =
     [''TEST_'', ''EXAMPLE_'', ''DEMO_'',
      ''MOCK_'', ''FAKE_'', ''DUMMY_'']"

text \<open>The character class \<^verbatim>\<open>[A-Za-z0-9_\-+=/.]\<close>.\<close>

definition value_char :: "char \<Rightarrow> bool" where
  "value_char c = (c \<in> set (ascii_uppercase @ ascii_lowercase @ digits @ ''_-+=/.''))"

text \<open>
  \<^verbatim>\<open>SECRET_VALUE_PATTERN.match(v)\<close> for the pattern
  \<^verbatim>\<open>^[A-Za-z0-9_\-+=/.]{16,}$\<close>: sixteen or more characters of the class up to the
  end of the string, where \<^verbatim>\<open>$\<close> also matches just before one final newline.
\<close>

definition SECRET_VALUE_PATTERN_match :: "string \<Rightarrow> bool" where
  "SECRET_VALUE_PATTERN_match v =
     (let body = (if v \<noteq> [] \<and> last v = CHR 0x0A then butlast v else v)
      in 16 \<le> length body \<and> list_all value_char body)"

record Detection =
  var_name :: string
  keywords_matched :: "string list"
  confidence :: string
  reason :: string

text \<open>
  The loop of \<^verbatim>\<open>scan\<close>, with the list of detections built so far. A value that is
  not a string makes \<^verbatim>\<open>SECRET_VALUE_PATTERN.match\<close> raise \<^verbatim>\<open>TypeError\<close>; it is
  reached only when the name passed the two checks before it.
\<close>

fun scan_loop ::
  "(string \<Rightarrow> string) \<Rightarrow> (string, json) pydict \<Rightarrow> Detection list
     \<Rightarrow> pyexn + Detection list" where
  "scan_loop u [] detections = Inr detections"
| "scan_loop u ((name, var_value) # rest) detections =
     (let var_upper = upper u name in
      if list_ex (startswith var_upper) SAFE_PREFIXES then scan_loop u rest detections
      else
        let matched_keywords = filter (\<lambda>keyword. py_in keyword var_upper) SECRET_KEYWORDS in
        if matched_keywords = [] then scan_loop u rest detections
        else
          (case var_value of
             JStr v \<Rightarrow>
               if \<not> SECRET_VALUE_PATTERN_match v then scan_loop u rest detections
               else scan_loop u rest
                 (detections @
                   [\<lparr>var_name = name,
                     keywords_matched = matched_keywords,
                     confidence = ''medium'',
                     reason = ''Contains keywords: '' @ join '', '' matched_keywords\<rparr>])
           | _ \<Rightarrow> Inl (PyException ''expected string or bytes-like object'')))"

definition scan :: "(string \<Rightarrow> string) \<Rightarrow> (string, json) pydict \<Rightarrow> pyexn + Detection list" where
  "scan u env_vars = scan_loop u env_vars []"

text \<open>The loop of \<^verbatim>\<open>scan_mcp_env\<close> that gathers the \<^verbatim>\<open>env\<close> maps of all servers.\<close>

fun collect_env :: "(string, json) pydict \<Rightarrow> (string, json) pydict \<Rightarrow> (string, json) pydict" where
  "collect_env [] all_env_vars = all_env_vars"
| "collect_env ((server_name, server_config) # rest) all_env_vars =
     (case server_config of
        JObj cfg \<Rightarrow>
          (case dict_get cfg ''env'' of
             Some (JObj env) \<Rightarrow> collect_env rest (dict_update all_env_vars env)
           | _ \<Rightarrow> collect_env rest all_env_vars)
      | _ \<Rightarrow> collect_env rest all_env_vars)"

definition scan_mcp_env ::
  "(string \<Rightarrow> string) \<Rightarrow> (string, json) pydict \<Rightarrow> pyexn + Detection list" where
  "scan_mcp_env u mcp_servers = scan u (collect_env mcp_servers [])"

definition should_block :: "Detection list \<Rightarrow> bool \<Rightarrow> bool" where
  "should_block detections allow_secrets =
     (if detections = [] then False
      else if allow_secrets then False
      else True)"

text \<open>
  \<^verbatim>\<open>format_warnings\<close>. The warning sign, the middle dot and the dash of the source
  text are written as their UTF-8 bytes.
\<close>

definition warning_sign :: string where
  "warning_sign = [CHR 0xE2, CHR 0x9A, CHR 0xA0]"

definition middle_dot :: string where
  "middle_dot = [CHR 0xC2, CHR 0xB7]"

definition em_dash :: string where
  "em_dash = [CHR 0xE2, CHR 0x80, CHR 0x94]"

definition format_warnings :: "Detection list \<Rightarrow> string" where
  "format_warnings detections =
     (if detections = [] then []
      else
        let lines =
          [[CHR 0x0A] @ warning_sign @ '' Detected '' @ str_nat (length detections)
             @ '' potential secret(s) in environment variables:'']
          @ map (\<lambda>detection.
                   ''  '' @ middle_dot @ '' '' @ var_name detection @ '' '' @ em_dash @ '' ''
                     @ reason detection) detections
          @ [[CHR 0x0A] @ ''Secrets should not be synced to target configs.'',
             ''Use --allow-secrets to override this warning (NOT recommended).'']
        in join [CHR 0x0A] lines)"

subsection \<open>Scoped MCP discovery (source\_reader.py)\<close>

record Metadata =
  md_scope :: string
  md_source :: string
  plugin_name :: "json option"
  plugin_version :: "json option"

record ScopedEntry =
  config :: "(string, json) pydict"
  metadata :: Metadata

text \<open>
  The reader with what its four helpers return from the file system:
  \<^verbatim>\<open>_get_user_scope_mcps\<close>, \<^verbatim>\<open>_get_plugin_mcp_servers\<close>,
  \<^verbatim>\<open>_get_project_scope_mcps\<close> and \<^verbatim>\<open>_get_local_scope_mcps\<close>, each a dict from
  server name to its configuration dict. \<open>project_dir\<close> is \<open>None\<close> for Python's
  \<^verbatim>\<open>None\<close>.
\<close>

record SourceReader =
  sr_scope :: string
  project_dir :: "string option"
  user_scope_mcps :: "(string, (string, json) pydict) pydict"
  plugin_mcp_servers :: "(string, (string, json) pydict) pydict"
  project_scope_mcps :: "(string, (string, json) pydict) pydict"
  local_scope_mcps :: "(string, (string, json) pydict) pydict"

definition file_entry :: "string \<Rightarrow> (string, json) pydict \<Rightarrow> ScopedEntry" where
  "file_entry sc cfg =
     \<lparr>config = cfg,
      metadata = \<lparr>md_scope = sc, md_source = ''file'',
                  plugin_name = None, plugin_version = None\<rparr>\<rparr>"

text \<open>
  The entry of a plugin server: the keys that start with an underscore are taken out of
  the configuration, and what \<^verbatim>\<open>_plugin_name\<close> and \<^verbatim>\<open>_plugin_version\<close> hold is
  passed on as it is.
\<close>

definition plugin_entry :: "(string, json) pydict \<Rightarrow> ScopedEntry" where
  "plugin_entry cfg =
     (let clean_config = filter (\<lambda>(k, v). \<not> startswith k ''_'') cfg;
          p_name = dict_get_or cfg ''_plugin_name'' (JStr ''unknown'');
          p_version = dict_get_or cfg ''_plugin_version'' (JStr ''unknown'')
      in \<lparr>config = clean_config,
          metadata = \<lparr>md_scope = ''user'', md_source = ''plugin'',
                      plugin_name = Some p_name, plugin_version = Some p_version\<rparr>\<rparr>)"

text \<open>The loop of a file-based layer: every entry overwrites a same-named earlier one.\<close>

fun add_file_layer ::
  "string \<Rightarrow> (string, (string, json) pydict) pydict \<Rightarrow> (string, ScopedEntry) pydict
     \<Rightarrow> (string, ScopedEntry) pydict" where
  "add_file_layer sc [] servers = servers"
| "add_file_layer sc ((name, cfg) # rest) servers =
     add_file_layer sc rest (dict_set servers name (file_entry sc cfg))"

text \<open>The loop of the plugin layer: an entry is stored only under a name not yet present.\<close>

fun add_plugin_layer ::
  "(string, (string, json) pydict) pydict \<Rightarrow> (string, ScopedEntry) pydict
     \<Rightarrow> (string, ScopedEntry) pydict" where
  "add_plugin_layer [] servers = servers"
| "add_plugin_layer ((name, cfg) # rest) servers =
     (if name \<notin> set (dict_keys servers)
      then add_plugin_layer rest (dict_set servers name (plugin_entry cfg))
      else add_plugin_layer rest servers)"

definition get_mcp_servers_with_scope :: "SourceReader \<Rightarrow> (string, ScopedEntry) pydict" where
  "get_mcp_servers_with_scope self =
     (let servers0 = [];
          servers1 =
            (if sr_scope self \<in> set [''user'', ''all'']
             then add_file_layer ''user'' (user_scope_mcps self) servers0 else servers0);
          servers2 =
            (if sr_scope self \<in> set [''user'', ''all'']
             then add_plugin_layer (plugin_mcp_servers self) servers1 else servers1);
          servers3 =
            (if sr_scope self \<in> set [''project'', ''all''] \<and> project_dir self \<noteq> None
             then add_file_layer ''project'' (project_scope_mcps self) servers2 else servers2);
          servers4 =
            (if sr_scope self \<in> set [''project'', ''all''] \<and> project_dir self \<noteq> None
             then add_file_layer ''local'' (local_scope_mcps self) servers3 else servers3)
      in servers4)"

text \<open>The flat view: \<^verbatim>\<open>{name: entry["config"] for name, entry in scoped.items()}\<close>.\<close>

definition flat_of :: "(string, ScopedEntry) pydict \<Rightarrow> (string, json) pydict" where
  "flat_of scoped = map (\<lambda>(name, entry). (name, JObj (config entry))) scoped"

definition get_mcp_servers :: "SourceReader \<Rightarrow> (string, json) pydict" where
  "get_mcp_servers self = flat_of (get_mcp_servers_with_scope self)"

subsection \<open>The adapter contract (adapters/base.py)\<close>

text \<open>
  What \<^verbatim>\<open>sync_all\<close> receives: a dict whose keys may be missing (\<open>None\<close>). The
  argument of \<^verbatim>\<open>sync_rules\<close> is the rules text, or the default \<^verbatim>\<open>[]\<close> when the key
  is missing.
\<close>

datatype rules_arg = RulesText string | RulesDefault

record Snapshot =
  sd_rules :: "string option"
  sd_skills :: "(string, string) pydict option"
  sd_agents :: "(string, string) pydict option"
  sd_commands :: "(string, string) pydict option"
  sd_mcp :: "(string, json) pydict option"
  sd_mcp_scoped :: "(string, ScopedEntry) pydict option"
  sd_settings :: "(string, json) pydict option"

text \<open>
  An adapter: its operations act on the target's files \<open>'fs\<close> and return a result or
  raise. \<open>sync_mcp_scoped\<close> is \<open>None\<close> for an adapter that inherits the operation
  from the base class.
\<close>

record 'fs Adapter =
  target_name :: string
  sync_rules :: "rules_arg \<Rightarrow> 'fs \<Rightarrow> (pyexn + SyncResult) \<times> 'fs"
  sync_skills :: "(string, string) pydict \<Rightarrow> 'fs \<Rightarrow> (pyexn + SyncResult) \<times> 'fs"
  sync_agents :: "(string, string) pydict \<Rightarrow> 'fs \<Rightarrow> (pyexn + SyncResult) \<times> 'fs"
  sync_commands :: "(string, string) pydict \<Rightarrow> 'fs \<Rightarrow> (pyexn + SyncResult) \<times> 'fs"
  sync_mcp :: "(string, json) pydict \<Rightarrow> 'fs \<Rightarrow> (pyexn + SyncResult) \<times> 'fs"
  sync_mcp_scoped ::
    "((string, ScopedEntry) pydict \<Rightarrow> 'fs \<Rightarrow> (pyexn + SyncResult) \<times> 'fs) option"
  sync_settings :: "(string, json) pydict \<Rightarrow> 'fs \<Rightarrow> (pyexn + SyncResult) \<times> 'fs"

text \<open>
  The operations the base class calls are recorded, in order, beside the files. What an
  overriding \<^verbatim>\<open>sync_mcp_scoped\<close> calls inside is that operation's own behaviour.
\<close>

datatype op_name = OpRules | OpSkills | OpAgents | OpCommands | OpMcp | OpMcpScoped | OpSettings

definition invoke ::
  "op_name \<Rightarrow> ('fs \<Rightarrow> (pyexn + SyncResult) \<times> 'fs) \<Rightarrow> 'fs \<times> op_name list
     \<Rightarrow> (pyexn + SyncResult) \<times> ('fs \<times> op_name list)" where
  "invoke nm f st =
     (case st of (fs, calls) \<Rightarrow>
        (case f fs of (r, fs') \<Rightarrow> (r, (fs', calls @ [nm]))))"

text \<open>
  \<^verbatim>\<open>self.sync_mcp_scoped(mcp_scoped)\<close>: the adapter's own operation, or the inherited
  one, which flattens the entries and returns \<^verbatim>\<open>self.sync_mcp(flat)\<close>.
\<close>

definition call_sync_mcp_scoped ::
  "'fs Adapter \<Rightarrow> (string, ScopedEntry) pydict \<Rightarrow> 'fs \<times> op_name list
     \<Rightarrow> (pyexn + SyncResult) \<times> ('fs \<times> op_name list)" where
  "call_sync_mcp_scoped self mcp_servers_scoped st =
     (case sync_mcp_scoped self of
        Some f \<Rightarrow> invoke OpMcpScoped (f mcp_servers_scoped) st
      | None \<Rightarrow>
          (case st of (fs, calls) \<Rightarrow>
             invoke OpMcp (sync_mcp self (flat_of mcp_servers_scoped))
               (fs, calls @ [OpMcpScoped])))"

text \<open>
  One \<^verbatim>\<open>try\<close> block of \<^verbatim>\<open>sync_all\<close>: the result of the call, or on
  \<^verbatim>\<open>except Exception as e\<close> the record
  \<^verbatim>\<open>SyncResult(failed=1, failed_files=[f'<category>: {str(e)}'])\<close>.
\<close>

definition failed_result :: "string \<Rightarrow> SyncResult" where
  "failed_result msg = SyncResult0\<lparr>failed := 1, failed_files := [msg]\<rparr>"

definition try_sync :: "string \<Rightarrow> (pyexn + SyncResult) \<Rightarrow> SyncResult" where
  "try_sync category r =
     (case r of
        Inr res \<Rightarrow> res
      | Inl (PyException e) \<Rightarrow> failed_result (category @ '': '' @ e))"

definition or_empty :: "('k, 'v) pydict option \<Rightarrow> ('k, 'v) pydict" where
  "or_empty d = (case d of None \<Rightarrow> [] | Some x \<Rightarrow> x)"

definition sync_all ::
  "'fs Adapter \<Rightarrow> Snapshot \<Rightarrow> 'fs \<times> op_name list
     \<Rightarrow> (pyexn + (string, SyncResult) pydict) \<times> ('fs \<times> op_name list)" where
  "sync_all self source_data st0 =
     (let results0 = [];
          (r1, st1) = invoke OpRules
             (sync_rules self (case sd_rules source_data of None \<Rightarrow> RulesDefault
                                | Some t \<Rightarrow> RulesText t)) st0;
          results1 = dict_set results0 ''rules'' (try_sync ''rules'' r1);
          (r2, st2) = invoke OpSkills (sync_skills self (or_empty (sd_skills source_data))) st1;
          results2 = dict_set results1 ''skills'' (try_sync ''skills'' r2);
          (r3, st3) = invoke OpAgents (sync_agents self (or_empty (sd_agents source_data))) st2;
          results3 = dict_set results2 ''agents'' (try_sync ''agents'' r3);
          (r4, st4) = invoke OpCommands
             (sync_commands self (or_empty (sd_commands source_data))) st3;
          results4 = dict_set results3 ''commands'' (try_sync ''commands'' r4);
          mcp_scoped = or_empty (sd_mcp_scoped source_data);
          (r5, st5) =
            (if mcp_scoped \<noteq> [] then call_sync_mcp_scoped self mcp_scoped st4
             else invoke OpMcp (sync_mcp self (or_empty (sd_mcp source_data))) st4);
          results5 = dict_set results4 ''mcp'' (try_sync ''mcp'' r5);
          (r6, st6) = invoke OpSettings
             (sync_settings self (or_empty (sd_settings source_data))) st5;
          results6 = dict_set results5 ''settings'' (try_sync ''settings'' r6)
      in (Inr results6, st6))"

subsection \<open>The state manager (state\_manager.py)\<close>

text \<open>
  The state document. A key that a dict may lack is an optional field; the records are the
  shapes \<^verbatim>\<open>record_sync\<close> and \<^verbatim>\<open>record_plugin_sync\<close> write. The plugins section
  holds the plugin names and versions as they were recorded: \<open>'k\<close> is the type of the
  names and \<open>'v\<close> of the versions, both \<^typ>\<open>json\<close> for what the orchestrator records.
\<close>

record TargetState =
  ts_last_sync :: string
  ts_status :: string
  ts_scope :: string
  file_hashes :: "(string, string) pydict option"
  sync_method :: "(string, string) pydict"
  items_synced :: int
  items_skipped :: int
  items_failed :: int

record 'v PluginMeta =
  version :: "'v option"
  mcp_count :: "int option"
  mcp_servers :: "string list"
  pm_last_sync :: string

record ('k, 'v) AccountState =
  as_last_sync :: "string option"
  as_targets :: "(string, TargetState) pydict option"
  as_plugins :: "('k, 'v PluginMeta) pydict option"

record ('k, 'v) State =
  st_version :: int
  st_last_sync :: "string option"
  targets :: "(string, TargetState) pydict option"
  accounts :: "(string, ('k, 'v) AccountState) pydict option"
  plugins :: "('k, 'v PluginMeta) pydict option"

text \<open>
  The manager: \<open>sm_state\<close> is \<^verbatim>\<open>self._state\<close>, \<open>sm_file\<close> the document in the state
  file (\<open>None\<close> while there is no file).
\<close>

record ('k, 'v) StateManager =
  sm_state :: "('k, 'v) State"
  sm_file :: "('k, 'v) State option"

text \<open>
  \<^verbatim>\<open>_save\<close>: the state file is replaced by the state in memory. The write itself
  (temporary file, rename) is taken to succeed.
\<close>

definition save :: "('k, 'v) StateManager \<Rightarrow> ('k, 'v) StateManager" where
  "save self = self\<lparr>sm_file := Some (sm_state self)\<rparr>"

text \<open>An account dict without keys, \<^verbatim>\<open>{}\<close>; it is the only falsy account state.\<close>

definition AccountState0 :: "('k, 'v) AccountState" where
  "AccountState0 = \<lparr>as_last_sync = None, as_targets = None, as_plugins = None\<rparr>"

definition record_sync ::
  "('k, 'v) StateManager \<Rightarrow> string \<Rightarrow> string \<Rightarrow> (string, string) pydict
     \<Rightarrow> (string, string) pydict \<Rightarrow> int \<Rightarrow> int \<Rightarrow> int \<Rightarrow> string option \<Rightarrow> string
     \<Rightarrow> ('k, 'v) StateManager" where
  "record_sync self target scope hashes sync_methods n_synced n_skipped n_failed account now =
     (let new_status =
            (if n_failed = 0 then ''success''
             else if n_synced > 0 \<and> n_failed > 0 then ''partial''
             else ''failed'');
          target_data =
            \<lparr>ts_last_sync = now, ts_status = new_status, ts_scope = scope,
             file_hashes = Some hashes, sync_method = sync_methods,
             items_synced = n_synced, items_skipped = n_skipped, items_failed = n_failed\<rparr>;
          st = sm_state self;
          st1 =
            (case account of
               Some acct \<Rightarrow>
                 (let accts = or_empty (accounts st);
                      a0 = (case dict_get accts acct of
                              None \<Rightarrow> AccountState0\<lparr>as_targets := Some []\<rparr>
                            | Some a \<Rightarrow> a);
                      a1 = (if as_targets a0 = None then a0\<lparr>as_targets := Some []\<rparr> else a0);
                      a2 = a1\<lparr>as_targets := Some (dict_set (or_empty (as_targets a1)) target target_data),
                              as_last_sync := Some now\<rparr>
                  in st\<lparr>accounts := Some (dict_set accts acct a2)\<rparr>)
             | None \<Rightarrow>
                 st\<lparr>targets := Some (dict_set (or_empty (targets st)) target target_data)\<rparr>);
          st2 = st1\<lparr>st_last_sync := Some now\<rparr>
      in save (self\<lparr>sm_state := st2\<rparr>))"

text \<open>
  The comparison of \<^verbatim>\<open>detect_drift\<close> once the target's stored record is found
  (\<open>None\<close>: no record): the two loops, over the current and over the stored hashes.
\<close>

definition drift_against ::
  "TargetState option \<Rightarrow> (string, string) pydict \<Rightarrow> string list" where
  "drift_against target_state current_hashes =
     (case target_state of
        None \<Rightarrow> dict_keys current_hashes
      | Some ts \<Rightarrow>
          (let stored_hashes = or_empty (file_hashes ts);
               changed_or_new =
                 map fst (filter (\<lambda>(path, current_hash).
                             dict_get stored_hashes path \<noteq> Some current_hash) current_hashes);
               removed =
                 filter (\<lambda>path. path \<notin> set (dict_keys current_hashes)) (dict_keys stored_hashes)
           in changed_or_new @ removed))"

definition detect_drift ::
  "('k, 'v) StateManager \<Rightarrow> string \<Rightarrow> (string, string) pydict \<Rightarrow> string option \<Rightarrow> string list" where
  "detect_drift self target current_hashes account =
     (case account of
        Some acct \<Rightarrow>
          (case dict_get (or_empty (accounts (sm_state self))) acct of
             None \<Rightarrow> dict_keys current_hashes
           | Some account_state \<Rightarrow>
               if account_state = AccountState0 then dict_keys current_hashes
               else drift_against (dict_get (or_empty (as_targets account_state)) target)
                      current_hashes)
      | None \<Rightarrow>
          drift_against (dict_get (or_empty (targets (sm_state self))) target) current_hashes)"

definition record_plugin_sync ::
  "('k, 'v) StateManager \<Rightarrow> ('k, 'v PluginMeta) pydict \<Rightarrow> string option
     \<Rightarrow> ('k, 'v) StateManager" where
  "record_plugin_sync self plugins_metadata account =
     (let st = sm_state self;
          st1 =
            (case account of
               Some acct \<Rightarrow>
                 (let accts = or_empty (accounts st);
                      a0 = (case dict_get accts acct of None \<Rightarrow> AccountState0 | Some a \<Rightarrow> a)
                  in st\<lparr>accounts :=
                          Some (dict_set accts acct (a0\<lparr>as_plugins := Some plugins_metadata\<rparr>))\<rparr>)
             | None \<Rightarrow> st\<lparr>plugins := Some plugins_metadata\<rparr>)
      in save (self\<lparr>sm_state := st1\<rparr>))"

definition get_plugin_status ::
  "('k, 'v) StateManager \<Rightarrow> string option \<Rightarrow> ('k, 'v PluginMeta) pydict" where
  "get_plugin_status self account =
     (case account of
        Some acct \<Rightarrow>
          (case dict_get (or_empty (accounts (sm_state self))) acct of
             None \<Rightarrow> []
           | Some account_state \<Rightarrow>
               if account_state = AccountState0 then [] else or_empty (as_plugins account_state))
      | None \<Rightarrow> or_empty (plugins (sm_state self)))"

text \<open>
  How an f-string prints a value that \<^verbatim>\<open>.get\<close> returned: \<^verbatim>\<open>None\<close>, a string as it
  is, an integer in decimal. \<^verbatim>\<open>detect_plugin_drift\<close> is given for plugin names and
  versions that are strings.
\<close>

definition str_opt :: "string option \<Rightarrow> string" where
  "str_opt v = (case v of None \<Rightarrow> ''None'' | Some s \<Rightarrow> s)"

definition str_int_opt :: "int option \<Rightarrow> string" where
  "str_int_opt v = (case v of None \<Rightarrow> ''None'' | Some i \<Rightarrow> str_int i)"

text \<open>The first loop of \<^verbatim>\<open>detect_plugin_drift\<close>, over the stored plugin names.\<close>

fun removed_loop ::
  "string list \<Rightarrow> (string, string PluginMeta) pydict \<Rightarrow> (string, string) pydict
     \<Rightarrow> (string, string) pydict" where
  "removed_loop [] current_plugins drift = drift"
| "removed_loop (name # rest) current_plugins drift =
     (if name \<notin> set (dict_keys current_plugins)
      then removed_loop rest current_plugins (dict_set drift name ''removed'')
      else removed_loop rest current_plugins drift)"

text \<open>The second loop, over the current plugins.\<close>

fun changed_loop ::
  "(string, string PluginMeta) pydict \<Rightarrow> (string, string PluginMeta) pydict
     \<Rightarrow> (string, string) pydict
     \<Rightarrow> (string, string) pydict" where
  "changed_loop [] stored_plugins drift = drift"
| "changed_loop ((name, current_meta) # rest) stored_plugins drift =
     (case dict_get stored_plugins name of
        None \<Rightarrow> changed_loop rest stored_plugins (dict_set drift name ''added'')
      | Some stored_meta \<Rightarrow>
          (let current_version = version current_meta;
               stored_version = version stored_meta;
               current_count = mcp_count current_meta;
               stored_count = mcp_count stored_meta
           in if current_version \<noteq> stored_version
              then changed_loop rest stored_plugins
                     (dict_set drift name
                        (''version_changed: '' @ str_opt stored_version @ '' -> ''
                           @ str_opt current_version))
              else if current_count \<noteq> stored_count
              then changed_loop rest stored_plugins
                     (dict_set drift name
                        (''mcp_count_changed: '' @ str_int_opt stored_count @ '' -> ''
                           @ str_int_opt current_count))
              else changed_loop rest stored_plugins drift))"

definition detect_plugin_drift ::
  "(string, string) StateManager \<Rightarrow> (string, string PluginMeta) pydict \<Rightarrow> string option
     \<Rightarrow> (string, string) pydict" where
  "detect_plugin_drift self current_plugins account =
     (let stored_plugins =
            (case account of
               Some acct \<Rightarrow>
                 (case dict_get (or_empty (accounts (sm_state self))) acct of
                    None \<Rightarrow> []
                  | Some account_state \<Rightarrow>
                      if account_state = AccountState0 then []
                      else or_empty (as_plugins account_state))
             | None \<Rightarrow> or_empty (plugins (sm_state self)));
          drift0 = [];
          drift1 = removed_loop (dict_keys stored_plugins) current_plugins drift0
      in changed_loop current_plugins stored_plugins drift1)"

text \<open>\<^verbatim>\<open>get_target_status\<close> and \<^verbatim>\<open>get_account_target_status\<close>.\<close>

definition get_target_status :: "('k, 'v) StateManager \<Rightarrow> string \<Rightarrow> TargetState option" where
  "get_target_status self target = dict_get (or_empty (targets (sm_state self))) target"

definition get_account_target_status ::
  "('k, 'v) StateManager \<Rightarrow> string \<Rightarrow> string \<Rightarrow> TargetState option" where
  "get_account_target_status self acct target =
     (case dict_get (or_empty (accounts (sm_state self))) acct of
        None \<Rightarrow> None
      | Some account_state \<Rightarrow>
          if account_state = AccountState0 then None
          else dict_get (or_empty (as_targets account_state)) target)"

text \<open>The manager \<^verbatim>\<open>_load\<close> builds when there is no state file.\<close>

definition fresh_manager :: "('k, 'v) StateManager" where
  "fresh_manager =
     \<lparr>sm_state = \<lparr>st_version = 2, st_last_sync = None, targets = Some [],
                   accounts = Some [], plugins = None\<rparr>,
      sm_file = None\<rparr>"

text \<open>
  The stored hashes \<^verbatim>\<open>detect_drift\<close> compares with: those of the target's record,
  \<open>None\<close> when the state holds no record for the target (or no such account).
\<close>

definition stored_baseline ::
  "('k, 'v) StateManager \<Rightarrow> string \<Rightarrow> string option \<Rightarrow> (string, string) pydict option" where
  "stored_baseline self target account =
     map_option (\<lambda>ts. or_empty (file_hashes ts))
       (case account of
          None \<Rightarrow> get_target_status self target
        | Some acct \<Rightarrow> get_account_target_status self acct target)"

text \<open>
  The status on disk after a call: the state file read back through
  \<^verbatim>\<open>get_target_status\<close> (no account) or \<^verbatim>\<open>get_account_target_status\<close>.
\<close>

definition persisted_status ::
  "('k, 'v) StateManager \<Rightarrow> string option \<Rightarrow> string \<Rightarrow> string option" where
  "persisted_status self account target =
     (case sm_file self of
        None \<Rightarrow> None
      | Some st \<Rightarrow>
          map_option ts_status
            (case account of
               None \<Rightarrow> get_target_status (self\<lparr>sm_state := st\<rparr>) target
             | Some acct \<Rightarrow> get_account_target_status (self\<lparr>sm_state := st\<rparr>) acct target))"

subsection \<open>The orchestrator (orchestrator.py)\<close>

record Conflict =
  file_path :: string
  stored_hash :: string
  current_hash :: string
  conflict_target :: string
  conflict_note :: "string option"

text \<open>A value of the dict \<^verbatim>\<open>SyncOrchestrator.sync_all\<close> returns.\<close>

datatype result_value =
    TargetResults "(string, SyncResult) pydict"
  | Preview string
  | Flag bool
  | Text string
  | Conflicts "(string, Conflict list) pydict"

text \<open>What a run does besides returning: log lines and the calls that touch files.\<close>

datatype event =
    Warn string
  | Info string
  | Error string
  | AdapterSyncAll string
  | PreviewSync string
  | SymlinkCleanup
  | BackupCleanup string

record Orchestrator =
  o_project_dir :: "string option"
  o_scope :: string
  dry_run :: bool
  allow_secrets :: bool
  o_account :: "string option"
  state_manager :: "(json, json) StateManager"

text \<open>
  The surroundings of a run. \<open>source\<close> is what the reader's helpers find on the file
  system and \<open>discovered\<close> what its other accessors return; \<open>source_hashes\<close> are the
  digests of the source files; \<open>conflicts\<close> is what \<^verbatim>\<open>ConflictDetector.check_all\<close>
  returns; \<open>registry\<close> holds the registered targets in the sorted order of
  \<^verbatim>\<open>list_targets\<close>, each with the \<^verbatim>\<open>sync_all\<close> of its adapter;
  \<open>format_conflicts\<close>, \<open>preview\<close> and \<open>format_report\<close> are the texts of the
  conflict detector, of the diff formatter and of the compatibility reporter;
  \<open>unicode_upper\<close> is the runtime's \<^verbatim>\<open>str.upper\<close> on strings that are not ASCII;
  \<open>files\<close> are the targets' files.
\<close>

record 'fs World =
  source :: SourceReader
  discovered :: Snapshot
  source_hashes :: "(string, string) pydict"
  conflicts :: "(string, Conflict list) pydict"
  registry ::
    "(string, Snapshot \<Rightarrow> 'fs \<Rightarrow> (pyexn + (string, SyncResult) pydict) \<times> 'fs) pydict"
  format_conflicts :: "(string, Conflict list) pydict \<Rightarrow> string"
  preview :: "string \<Rightarrow> Snapshot \<Rightarrow> string"
  format_report :: "(string, result_value) pydict \<Rightarrow> string"
  unicode_upper :: "string \<Rightarrow> string"
  clock :: string
  files :: "'fs"
  events :: "event list"

definition log_event :: "event \<Rightarrow> 'fs World \<Rightarrow> 'fs World" where
  "log_event e w = w\<lparr>events := events w @ [e]\<rparr>"

text \<open>
  The loop of \<^verbatim>\<open>_extract_plugin_metadata\<close>. A plugin is grouped under its name,
  which \<^verbatim>\<open>_get_plugin_mcp_servers\<close> takes from a key of the plugin registry, a
  string; the version is any value the registry holds.
\<close>

fun extract_loop ::
  "(string, ScopedEntry) pydict \<Rightarrow> string \<Rightarrow> (json, json PluginMeta) pydict
     \<Rightarrow> (json, json PluginMeta) pydict" where
  "extract_loop [] now plugins_acc = plugins_acc"
| "extract_loop ((server_name, server_data) # rest) now plugins_acc =
     (let md = metadata server_data in
      if md_source md \<noteq> ''plugin'' then extract_loop rest now plugins_acc
      else
        let p_name = (case plugin_name md of None \<Rightarrow> JStr ''unknown'' | Some n \<Rightarrow> n);
            p_version = (case plugin_version md of None \<Rightarrow> JStr ''unknown'' | Some v \<Rightarrow> v);
            m0 = (case dict_get plugins_acc p_name of
                    None \<Rightarrow>
                      \<lparr>version = Some p_version, mcp_count = Some 0,
                       mcp_servers = [], pm_last_sync = now\<rparr>
                  | Some m \<Rightarrow> m);
            m1 = m0\<lparr>mcp_count := map_option (\<lambda>c. c + 1) (mcp_count m0),
                    mcp_servers := mcp_servers m0 @ [server_name]\<rparr>
        in extract_loop rest now (dict_set plugins_acc p_name m1))"

definition extract_plugin_metadata ::
  "(string, ScopedEntry) pydict \<Rightarrow> string \<Rightarrow> (json, json PluginMeta) pydict" where
  "extract_plugin_metadata mcp_scoped now = extract_loop mcp_scoped now []"

text \<open>The counters of one target, summed over the \<^verbatim>\<open>SyncResult\<close> values of its dict.\<close>

definition sum_counts :: "result_value \<Rightarrow> int \<times> int \<times> int" where
  "sum_counts target_results =
     (case target_results of
        TargetResults d \<Rightarrow>
          (sum_list (map (synced \<circ> snd) d), sum_list (map (skipped \<circ> snd) d),
           sum_list (map (failed \<circ> snd) d))
      | _ \<Rightarrow> (0, 0, 0))"

text \<open>The loop of \<^verbatim>\<open>_update_state\<close> over the targets of the results.\<close>

fun record_targets ::
  "(string, result_value) pydict \<Rightarrow> string \<Rightarrow> (string, string) pydict \<Rightarrow> string option
     \<Rightarrow> string \<Rightarrow> ('k, 'v) StateManager \<Rightarrow> ('k, 'v) StateManager" where
  "record_targets [] scope hashes account now sm = sm"
| "record_targets ((target, target_results) # rest) scope hashes account now sm =
     (if startswith target ''_'' then record_targets rest scope hashes account now sm
      else
        (case sum_counts target_results of
           (n_synced, n_skipped, n_failed) \<Rightarrow>
             record_targets rest scope hashes account now
               (record_sync sm target scope hashes [] n_synced n_skipped n_failed account now)))"

definition update_state ::
  "Orchestrator \<Rightarrow> (string, result_value) pydict \<Rightarrow> (string, string) pydict
     \<Rightarrow> (string, ScopedEntry) pydict \<Rightarrow> string \<Rightarrow> Orchestrator" where
  "update_state self results hashes mcp_scoped now =
     (let sm1 = record_targets results (o_scope self) hashes (o_account self) now
                  (state_manager self);
          plugins_metadata = extract_plugin_metadata mcp_scoped now;
          sm2 = (if plugins_metadata \<noteq> []
                 then record_plugin_sync sm1 plugins_metadata (o_account self) else sm1)
      in self\<lparr>state_manager := sm2\<rparr>)"

text \<open>
  The adapter loop of \<^verbatim>\<open>sync_all\<close>: a preview in a dry run, else the adapter's
  \<^verbatim>\<open>sync_all\<close>, whose exception becomes the single entry \<^verbatim>\<open>error\<close>.
\<close>

fun run_targets ::
  "(string, Snapshot \<Rightarrow> 'fs \<Rightarrow> (pyexn + (string, SyncResult) pydict) \<times> 'fs) pydict
     \<Rightarrow> bool \<Rightarrow> Snapshot \<Rightarrow> (string, result_value) pydict \<Rightarrow> 'fs World
     \<Rightarrow> (string, result_value) pydict \<times> 'fs World" where
  "run_targets [] dry adapter_data results w = (results, w)"
| "run_targets ((target, adapter_sync_all) # rest) dry adapter_data results w =
     (if dry
      then run_targets rest dry adapter_data
             (dict_set results target (Preview (preview w target adapter_data)))
             (log_event (PreviewSync target) w)
      else
        (case adapter_sync_all adapter_data (files w) of
           (Inr target_results, fs') \<Rightarrow>
             run_targets rest dry adapter_data
               (dict_set results target (TargetResults target_results))
               (log_event (AdapterSyncAll target) (w\<lparr>files := fs'\<rparr>))
         | (Inl (PyException e), fs') \<Rightarrow>
             run_targets rest dry adapter_data
               (dict_set results target
                  (TargetResults [(''error'', failed_result e)]))
               (log_event (Error (target @ '': sync failed: '' @ e))
                  (log_event (AdapterSyncAll target) (w\<lparr>files := fs'\<rparr>)))))"

text \<open>
  \<^verbatim>\<open>CompatibilityReporter.has_issues(generate(results))\<close>: some target's results hold
  a positive \<open>adapted\<close> or \<open>failed\<close> counter.
\<close>

definition has_issues :: "(string, result_value) pydict \<Rightarrow> bool" where
  "has_issues results =
     list_ex (\<lambda>(target, target_results).
        \<not> startswith target ''_'' \<and>
        (case target_results of
           TargetResults d \<Rightarrow> list_ex (\<lambda>(config_type, r). adapted r > 0 \<or> failed r > 0) d
         | _ \<Rightarrow> False)) results"

definition any_conflicts :: "(string, Conflict list) pydict \<Rightarrow> bool" where
  "any_conflicts cs = list_ex (\<lambda>(target, found). found \<noteq> []) cs"

text \<open>
  \<^verbatim>\<open>SourceReader(scope=self.scope, project_dir=self.project_dir, cc_home=self.cc_home)\<close>
  on the file system of the run.
\<close>

definition reader_of :: "Orchestrator \<Rightarrow> 'fs World \<Rightarrow> SourceReader" where
  "reader_of self w = (source w)\<lparr>sr_scope := o_scope self, project_dir := o_project_dir self\<rparr>"

text \<open>
  \<^verbatim>\<open>SyncOrchestrator.sync_all\<close>. The result is the returned dict, or the exception
  that escapes: the \<^verbatim>\<open>try\<close> around the secret scan catches \<^verbatim>\<open>ImportError\<close> only.
\<close>

definition orchestrator_sync_all ::
  "Orchestrator \<Rightarrow> 'fs World
     \<Rightarrow> (pyexn + (string, result_value) pydict) \<times> Orchestrator \<times> 'fs World" where
  "orchestrator_sync_all self w =
     (let reader = reader_of self w;
          scoped = get_mcp_servers_with_scope reader;
          mcp_servers = flat_of scoped;
          adapter_data = (discovered w)\<lparr>sd_mcp := Some mcp_servers, sd_mcp_scoped := Some scoped\<rparr>
      in case scan_mcp_env (unicode_upper w) mcp_servers of
           Inl e \<Rightarrow> (Inl e, self, w)
         | Inr detections \<Rightarrow>
             if should_block detections (allow_secrets self)
             then
               (Inr [(''_blocked'', Flag True),
                     (''_reason'', Text ''secrets_detected''),
                     (''_warnings'', Text (format_warnings detections))],
                self,
                log_event (Warn ''Sync blocked: secrets detected in environment variables'') w)
             else
               (let w1 = (if any_conflicts (conflicts w)
                          then log_event (Warn (format_conflicts w (conflicts w))) w else w);
                    (results1, w2) = run_targets (registry w1) (dry_run self) adapter_data [] w1;
                    w3 = (if \<not> dry_run self then log_event SymlinkCleanup w2 else w2);
                    results2 =
                      (if has_issues results1
                       then dict_set results1 ''_compatibility_report''
                              (Text (format_report w3 results1))
                       else results1);
                    self1 =
                      (if \<not> dry_run self
                       then update_state self results2 (source_hashes w3) scoped (clock w3)
                       else self);
                    w4 = (if \<not> dry_run self
                          then fold (\<lambda>target. log_event (BackupCleanup target))
                                 (dict_keys (registry w3)) w3
                          else w3);
                    results3 =
                      (if any_conflicts (conflicts w4)
                       then dict_set results2 ''_conflicts'' (Conflicts (conflicts w4))
                       else results2)
                in (Inr results3, self1, w4)))"

subsection \<open>Notions used in the statements about the secret detector\<close>

text \<open>The three checks of \<^verbatim>\<open>scan\<close> on one variable, and the dict it appends.\<close>

definition has_safe_prefix :: "(string \<Rightarrow> string) \<Rightarrow> string \<Rightarrow> bool" where
  "has_safe_prefix u name = list_ex (startswith (upper u name)) SAFE_PREFIXES"

definition keywords_in :: "(string \<Rightarrow> string) \<Rightarrow> string \<Rightarrow> string list" where
  "keywords_in u name = filter (\<lambda>keyword. py_in keyword (upper u name)) SECRET_KEYWORDS"

definition detection_of :: "(string \<Rightarrow> string) \<Rightarrow> string \<Rightarrow> Detection" where
  "detection_of u name =
     \<lparr>var_name = name,
      keywords_matched = keywords_in u name,
      confidence = ''medium'',
      reason = ''Contains keywords: '' @ join '', '' (keywords_in u name)\<rparr>"

definition is_str :: "json \<Rightarrow> bool" where
  "is_str v = (case v of JStr s \<Rightarrow> True | _ \<Rightarrow> False)"

definition flagged :: "(string \<Rightarrow> string) \<Rightarrow> string \<times> json \<Rightarrow> bool" where
  "flagged u entry =
     (case entry of (name, v) \<Rightarrow>
        \<not> has_safe_prefix u name \<and> keywords_in u name \<noteq> [] \<and>
        (case v of JStr s \<Rightarrow> SECRET_VALUE_PATTERN_match s | _ \<Rightarrow> False))"

subsection \<open>Notions used in the statements about discovery\<close>

text \<open>The two scope tests of \<^verbatim>\<open>get_mcp_servers_with_scope\<close>.\<close>

definition user_layers_read :: "SourceReader \<Rightarrow> bool" where
  "user_layers_read self = (sr_scope self \<in> set [''user'', ''all''])"

definition project_layers_read :: "SourceReader \<Rightarrow> bool" where
  "project_layers_read self =
     (sr_scope self \<in> set [''project'', ''all''] \<and> project_dir self \<noteq> None)"

text \<open>A layer as it is discovered: empty when the scope filter leaves it out.\<close>

definition layer_if :: "bool \<Rightarrow> ('k, 'v) pydict \<Rightarrow> ('k, 'v) pydict" where
  "layer_if read layer = (if read then layer else [])"

subsection \<open>Notions used in the statements about the orchestrator\<close>

text \<open>Whether discovery found a plugin-sourced MCP server.\<close>

definition plugin_sourced :: "(string, ScopedEntry) pydict \<Rightarrow> bool" where
  "plugin_sourced mcp_scoped =
     list_ex (\<lambda>(name, entry). md_source (metadata entry) = ''plugin'') mcp_scoped"

subsection \<open>An example run\<close>

text \<open>
  One user-scope server whose environment holds an API key, one registered target whose
  adapter syncs one rule, and a run without the override flag, under any runtime \<open>u\<close>.
\<close>

definition example_world :: "(string \<Rightarrow> string) \<Rightarrow> nat World" where
  "example_world u =
     \<lparr>source =
        \<lparr>sr_scope = ''all'', project_dir = None,
         user_scope_mcps =
           [(''api-server'',
             [(''command'', JStr ''npx''),
              (''args'', JArr [JStr ''${API_KEY}'']),
              (''env'', JObj [(''API_KEY'', JStr ''abc123abc123abc123'')])])],
         plugin_mcp_servers = [], project_scope_mcps = [], local_scope_mcps = []\<rparr>,
      discovered =
        \<lparr>sd_rules = Some ''be kind'', sd_skills = Some [], sd_agents = Some [],
         sd_commands = Some [], sd_mcp = None, sd_mcp_scoped = None, sd_settings = Some []\<rparr>,
      source_hashes = [(''/home/u/.claude/CLAUDE.md'', ''h1'')],
      conflicts = [],
      registry =
        [(''codex'', \<lambda>adapter_data fs.
            (Inr [(''rules'', SyncResult0\<lparr>synced := 1\<rparr>)], fs + 1))],
      format_conflicts = (\<lambda>found. ''conflicts''),
      preview = (\<lambda>target adapter_data. ''diff''),
      format_report = (\<lambda>results. ''report''),
      unicode_upper = u,
      clock = ''2024-01-01T12:00:00'',
      files = 0,
      events = []\<rparr>"

definition example_orchestrator :: Orchestrator where
  "example_orchestrator =
     \<lparr>o_project_dir = Some ''/p'', o_scope = ''all'', dry_run = False, allow_secrets = False,
      o_account = None, state_manager = fresh_manager\<rparr>"

section \<open>Properties\<close>

subsection \<open>Dictionaries\<close>

lemma or_empty_simps: "or_empty None = []" "or_empty (Some d) = d"
  by (simp_all add: or_empty_def)

lemma dict_get_set_same: "dict_get (dict_set d k v) k = Some v"
  by (simp add: dict_get_def dict_set_def update_conv')

lemma dict_get_set: "dict_get (dict_set d k v) k' = (if k' = k then Some v else dict_get d k')"
  by (simp add: dict_get_def dict_set_def update_conv')

subsection \<open>The result record\<close>

text \<open>
  Claim C7, as amended. \<^verbatim>\<open>merge\<close> is associative. It is commutative in the four
  counters; the three file lists of \<^verbatim>\<open>merge(a, b)\<close> hold the same entries as those of
  \<^verbatim>\<open>merge(b, a)\<close>, each as often, but in the order of concatenation.
\<close>

theorem merge_assoc_comm_counters:
  "merge (merge a b) c = merge a (merge b c)
   \<and> synced (merge a b) = synced (merge b a)
   \<and> skipped (merge a b) = skipped (merge b a)
   \<and> failed (merge a b) = failed (merge b a)
   \<and> adapted (merge a b) = adapted (merge b a)
   \<and> mset (synced_files (merge a b)) = mset (synced_files (merge b a))
   \<and> mset (skipped_files (merge a b)) = mset (skipped_files (merge b a))
   \<and> mset (failed_files (merge a b)) = mset (failed_files (merge b a))"
  by (simp add: merge_def)

text \<open>
  Commutativity as the claim states it fails: two results with one synced file each merge
  to different records in the two orders.
\<close>

theorem merge_not_commutative:
  "merge (SyncResult0\<lparr>synced := 1, synced_files := [''a.md'']\<rparr>)
         (SyncResult0\<lparr>synced := 1, synced_files := [''b.md'']\<rparr>)
   \<noteq> merge (SyncResult0\<lparr>synced := 1, synced_files := [''b.md'']\<rparr>)
            (SyncResult0\<lparr>synced := 1, synced_files := [''a.md'']\<rparr>)"
  by (simp add: merge_def SyncResult0_def)

subsection \<open>The status that \<^verbatim>\<open>record_sync\<close> persists\<close>

lemma account_with_targets_nonempty:
  "r\<lparr>as_targets := Some t, as_last_sync := l\<rparr> \<noteq> AccountState0"
  by (cases r) (simp add: AccountState0_def)

lemma record_sync_flat:
  "get_target_status (record_sync self target scope hashes sync_methods a b c None now) target =
     Some \<lparr>ts_last_sync = now,
           ts_status = (if c = 0 then ''success''
                        else if a > 0 \<and> c > 0 then ''partial'' else ''failed''),
           ts_scope = scope, file_hashes = Some hashes, sync_method = sync_methods,
           items_synced = a, items_skipped = b, items_failed = c\<rparr>"
  by (simp add: get_target_status_def record_sync_def save_def Let_def dict_get_set_same
      or_empty_simps split del: if_split)

lemma record_sync_account:
  "get_account_target_status
     (record_sync self target scope hashes sync_methods a b c (Some acct) now) acct target =
     Some \<lparr>ts_last_sync = now,
           ts_status = (if c = 0 then ''success''
                        else if a > 0 \<and> c > 0 then ''partial'' else ''failed''),
           ts_scope = scope, file_hashes = Some hashes, sync_method = sync_methods,
           items_synced = a, items_skipped = b, items_failed = c\<rparr>"
  by (simp add: get_account_target_status_def record_sync_def save_def Let_def dict_get_set_same
      account_with_targets_nonempty or_empty_simps split del: if_split)

lemma record_sync_saved:
  "sm_file (record_sync self target scope hashes sync_methods a b c account now) =
     Some (sm_state (record_sync self target scope hashes sync_methods a b c account now))"
  by (simp add: record_sync_def save_def Let_def)

text \<open>
  Claim C6, as amended. For non-negative counters, the status \<^verbatim>\<open>record_sync\<close>
  persists for the target is \<open>success\<close> when all three counters are 0 and the status of
  section 3 otherwise; and on non-negative counters the status of section 3 is the one
  \<^verbatim>\<open>SyncResult.status\<close> computes.
\<close>

theorem record_sync_status:
  assumes "0 \<le> a" and "0 \<le> b" and "0 \<le> c"
  shows "persisted_status
           (record_sync self target scope hashes sync_methods a b c account now) account target
         = Some (if a + b + c = 0 then ''success'' else spec_status a b c)
     \<and> spec_status a b c =
         status \<lparr>synced = a, skipped = b, failed = c, adapted = d,
                 synced_files = xs, skipped_files = ys, failed_files = zs\<rparr>"
proof -
  let ?sm = "record_sync self target scope hashes sync_methods a b c account now"
  have eq: "?sm\<lparr>sm_state := sm_state ?sm\<rparr> = ?sm" by simp
  have st: "(if c = 0 then ''success'' else if a > 0 \<and> c > 0 then ''partial'' else ''failed'')
      = (if a + b + c = 0 then ''success'' else spec_status a b c)"
    using assms by (auto simp: spec_status_def)
  have "persisted_status ?sm account target
          = Some (if a + b + c = 0 then ''success'' else spec_status a b c)"
  proof (cases account)
    case None
    then show ?thesis
      using record_sync_flat[of self target scope hashes sync_methods a b c now] st
      by (simp add: persisted_status_def record_sync_saved eq)
  next
    case (Some acct)
    then show ?thesis
      using record_sync_account[of self target scope hashes sync_methods a b c acct now] st
      by (simp add: persisted_status_def record_sync_saved eq)
  qed
  moreover have "spec_status a b c =
      status \<lparr>synced = a, skipped = b, failed = c, adapted = d,
              synced_files = xs, skipped_files = ys, failed_files = zs\<rparr>"
    using assms by (auto simp: status_def spec_status_def total_def)
  ultimately show ?thesis by simp
qed

theorem record_sync_status_witness:
  "persisted_status
     (record_sync (fresh_manager :: (string, string) StateManager) ''codex'' ''all'' [] [] 3 1 2 (Some ''work'') ''t'')
     (Some ''work'') ''codex''
   = Some ''partial''"
  using record_sync_status[of 3 1 2 "(fresh_manager :: (string, string) StateManager)" "''codex''" "''all''" "[]" "[]"
      "Some ''work''" "''t''" 0 "[]" "[]" "[]"]
  by (simp add: spec_status_def)

text \<open>
  The claim as stated fails when nothing was processed: with all counters 0,
  \<^verbatim>\<open>record_sync\<close> persists \<open>success\<close>, where section 3 and \<^verbatim>\<open>SyncResult.status\<close>
  give \<open>nothing\<close>.
\<close>

theorem record_sync_status_counterexample:
  "persisted_status (record_sync (fresh_manager :: (string, string) StateManager) ''codex'' ''all'' [] [] 0 0 0 None ''t'')
     None ''codex'' = Some ''success''
   \<and> spec_status 0 0 0 = ''nothing''
   \<and> status SyncResult0 = ''nothing''"
  by (simp add: persisted_status_def record_sync_def save_def Let_def fresh_manager_def
      get_target_status_def dict_get_def dict_set_def or_empty_def spec_status_def status_def
      total_def SyncResult0_def)

subsection \<open>Drift of file hashes\<close>

lemma in_dict_iff: "distinct (dict_keys d) \<Longrightarrow> (p, h) \<in> set d \<longleftrightarrow> dict_get d p = Some h"
  by (simp add: dict_get_def dict_keys_def)

lemma dict_get_None_iff: "dict_get d p = None \<longleftrightarrow> p \<notin> set (dict_keys d)"
  by (simp add: dict_get_def dict_keys_def map_of_eq_None_iff)

lemma distinct_dict_set: "distinct (dict_keys d) \<Longrightarrow> distinct (dict_keys (dict_set d k v))"
  by (simp add: dict_keys_def dict_set_def distinct_update)

lemma dict_get_Cons: "dict_get ((k, v) # d) k' = (if k' = k then Some v else dict_get d k')"
  by (simp add: dict_get_def)

lemma drift_against_set:
  assumes "distinct (dict_keys current)"
  shows "set (drift_against (Some ts) current) =
       {p. dict_get current p \<noteq> None \<and> dict_get (or_empty (file_hashes ts)) p = None}
     \<union> {p. dict_get current p \<noteq> None \<and> dict_get (or_empty (file_hashes ts)) p \<noteq> None
            \<and> dict_get current p \<noteq> dict_get (or_empty (file_hashes ts)) p}
     \<union> {p. dict_get current p = None \<and> dict_get (or_empty (file_hashes ts)) p \<noteq> None}"
proof -
  let ?st = "or_empty (file_hashes ts)"
  have a: "set (map fst (filter (\<lambda>(path, h). dict_get ?st path \<noteq> Some h) current))
         = {p. \<exists>h. dict_get current p = Some h \<and> dict_get ?st p \<noteq> Some h}"
    using assms by (auto simp: in_dict_iff image_iff)
  have b: "set (filter (\<lambda>path. path \<notin> set (dict_keys current)) (dict_keys ?st))
         = {p. dict_get current p = None \<and> dict_get ?st p \<noteq> None}"
    by (auto simp: dict_get_None_iff)
  show ?thesis
    unfolding drift_against_def Let_def option.case set_append a b
    by auto
qed

text \<open>
  Claim C5. For a current-hashes dict (its keys distinct, as in any dict),
  \<^verbatim>\<open>detect_drift\<close> returns exactly the paths that are added (only in current), changed
  (in both, with different digests) or removed (only in stored) against the stored hashes
  of the target; when the state has no record for the target (or for the account), it
  returns every path of the current dict.
\<close>

theorem detect_drift_exact:
  assumes "distinct (dict_keys current)"
  shows "set (detect_drift self target current account) =
     (case stored_baseline self target account of
        None \<Rightarrow> set (dict_keys current)
      | Some stored \<Rightarrow>
          {p. dict_get current p \<noteq> None \<and> dict_get stored p = None}
        \<union> {p. dict_get current p \<noteq> None \<and> dict_get stored p \<noteq> None
               \<and> dict_get current p \<noteq> dict_get stored p}
        \<union> {p. dict_get current p = None \<and> dict_get stored p \<noteq> None})"
proof (cases account)
  case None
  show ?thesis
  proof (cases "get_target_status self target")
    case n: None
    then show ?thesis using None
      by (simp add: detect_drift_def stored_baseline_def get_target_status_def drift_against_def)
  next
    case (Some ts)
    then show ?thesis using None drift_against_set[OF assms, of ts]
      by (simp add: detect_drift_def stored_baseline_def get_target_status_def)
  qed
next
  case (Some acct)
  show ?thesis
  proof (cases "get_account_target_status self acct target")
    case None
    then show ?thesis using Some
      by (auto simp: detect_drift_def stored_baseline_def get_account_target_status_def
          drift_against_def split: option.splits if_splits)
  next
    case s: (Some ts)
    then show ?thesis using Some drift_against_set[OF assms, of ts]
      by (auto simp: detect_drift_def stored_baseline_def get_account_target_status_def
          split: option.splits if_splits)
  qed
qed

theorem detect_drift_exact_witness:
  "distinct (dict_keys [(''a.md'', ''h1''), (''b.md'', ''h9''), (''d.md'', ''h4'')])
   \<and> detect_drift
       (record_sync (fresh_manager :: (string, string) StateManager) ''codex'' ''all''
          [(''a.md'', ''h1''), (''b.md'', ''h2''), (''c.md'', ''h3'')] [] 3 0 0 None ''t'')
       ''codex'' [(''a.md'', ''h1''), (''b.md'', ''h9''), (''d.md'', ''h4'')] None
     = [''b.md'', ''d.md'', ''c.md'']
   \<and> stored_baseline
       (record_sync (fresh_manager :: (string, string) StateManager) ''codex'' ''all''
          [(''a.md'', ''h1''), (''b.md'', ''h2''), (''c.md'', ''h3'')] [] 3 0 0 None ''t'')
       ''codex'' None
     = Some [(''a.md'', ''h1''), (''b.md'', ''h2''), (''c.md'', ''h3'')]
   \<and> detect_drift (fresh_manager :: (string, string) StateManager) ''codex''
       [(''a.md'', ''h1''), (''b.md'', ''h9''), (''d.md'', ''h4'')] (Some ''work'')
     = [''a.md'', ''b.md'', ''d.md'']"
  using detect_drift_exact[of "[(''a.md'', ''h1''), (''b.md'', ''h9''), (''d.md'', ''h4'')]"
      "record_sync (fresh_manager :: (string, string) StateManager) ''codex'' ''all''
          [(''a.md'', ''h1''), (''b.md'', ''h2''), (''c.md'', ''h3'')] [] 3 0 0 None ''t''"
      "''codex''" None]
  by (simp add: detect_drift_def drift_against_def record_sync_def save_def fresh_manager_def
      stored_baseline_def get_target_status_def
      dict_get_def dict_set_def dict_keys_def or_empty_def Let_def)

subsection \<open>Plugin drift\<close>

lemma removed_loop_get:
  "dict_get (removed_loop ks current drift) name =
     (if name \<in> set ks \<and> dict_get current name = None then Some ''removed''
      else dict_get drift name)"
  by (induction ks arbitrary: drift) (auto simp: dict_get_set dict_get_None_iff)

lemma removed_loop_distinct:
  "distinct (dict_keys drift) \<Longrightarrow> distinct (dict_keys (removed_loop ks current drift))"
  by (induction ks arbitrary: drift) (auto simp: distinct_dict_set)

lemma changed_loop_get:
  "distinct (dict_keys cur) \<Longrightarrow>
   dict_get (changed_loop cur stored drift) name =
     (case dict_get cur name of
        None \<Rightarrow> dict_get drift name
      | Some c \<Rightarrow>
          (case dict_get stored name of
             None \<Rightarrow> Some ''added''
           | Some s \<Rightarrow>
               if version c \<noteq> version s
               then Some (''version_changed: '' @ str_opt (version s) @ '' -> ''
                            @ str_opt (version c))
               else if mcp_count c \<noteq> mcp_count s
               then Some (''mcp_count_changed: '' @ str_int_opt (mcp_count s) @ '' -> ''
                            @ str_int_opt (mcp_count c))
               else dict_get drift name))"
proof (induction cur arbitrary: drift)
  case Nil
  then show ?case by (simp add: dict_get_def)
next
  case (Cons e cur)
  obtain k m where e: "e = (k, m)" by (cases e)
  from Cons.prems e have d: "distinct (dict_keys cur)" and k: "dict_get cur k = None"
    by (auto simp: dict_keys_def dict_get_def map_of_eq_None_iff)
  show ?case
    using Cons.IH[OF d] k
    by (auto simp: e dict_get_Cons dict_get_set Let_def split: option.splits)
qed

lemma changed_loop_distinct:
  "distinct (dict_keys drift) \<Longrightarrow> distinct (dict_keys (changed_loop cur stored drift))"
proof (induction cur arbitrary: drift)
  case Nil
  then show ?case by simp
next
  case (Cons e cur)
  obtain k m where e: "e = (k, m)" by (cases e)
  show ?case using Cons
    by (auto simp: e Let_def distinct_dict_set split: option.splits)
qed

lemma detect_plugin_drift_stored:
  "detect_plugin_drift self current account =
     changed_loop current (get_plugin_status self account)
       (removed_loop (dict_keys (get_plugin_status self account)) current [])"
  by (simp add: detect_plugin_drift_def get_plugin_status_def Let_def)

text \<open>
  Claim C4. Against the stored plugin metadata (\<^verbatim>\<open>get_plugin_status\<close>) and a current
  metadata dict, \<^verbatim>\<open>detect_plugin_drift\<close> returns a dict with at most one reason per
  plugin name: \<open>removed\<close> for a name missing from current, \<open>added\<close> for a name missing
  from stored, \<open>version_changed: old -> new\<close> when the versions differ, and
  \<open>mcp_count_changed: old -> new\<close> only when the versions are equal and the counts
  differ; a plugin present in both and equal in both fields has no entry.
\<close>

theorem detect_plugin_drift_reason:
  assumes "distinct (dict_keys current)"
  shows "dict_get (detect_plugin_drift self current account) name =
     (case (dict_get (get_plugin_status self account) name, dict_get current name) of
        (None, None) \<Rightarrow> None
      | (Some s, None) \<Rightarrow> Some ''removed''
      | (None, Some c) \<Rightarrow> Some ''added''
      | (Some s, Some c) \<Rightarrow>
          if version c \<noteq> version s
          then Some (''version_changed: '' @ str_opt (version s) @ '' -> '' @ str_opt (version c))
          else if mcp_count c \<noteq> mcp_count s
          then Some (''mcp_count_changed: '' @ str_int_opt (mcp_count s) @ '' -> ''
                       @ str_int_opt (mcp_count c))
          else None)
    \<and> distinct (dict_keys (detect_plugin_drift self current account))"
proof -
  let ?stored = "get_plugin_status self account"
  have 1: "distinct (dict_keys (detect_plugin_drift self current account))"
    unfolding detect_plugin_drift_stored
    by (intro changed_loop_distinct removed_loop_distinct) (simp add: dict_keys_def)
  have 2: "dict_get (removed_loop (dict_keys ?stored) current []) name =
     (if dict_get ?stored name \<noteq> None \<and> dict_get current name = None
      then Some ''removed'' else None)"
    by (simp add: removed_loop_get dict_get_None_iff) (simp add: dict_keys_def)
  show ?thesis
    using 1 2
      changed_loop_get[OF assms, of ?stored "removed_loop (dict_keys ?stored) current []" name]
    by (auto simp: detect_plugin_drift_stored split: option.splits)
qed

theorem detect_plugin_drift_reason_witness:
  "distinct (dict_keys
     [(''p1'', \<lparr>version = Some ''2.0'', mcp_count = Some 3,
               mcp_servers = [''a'', ''b'', ''e''], pm_last_sync = ''t1''\<rparr>),
      (''p2'', \<lparr>version = Some ''1.0'', mcp_count = Some 12,
               mcp_servers = [], pm_last_sync = ''t1''\<rparr>),
      (''p4'', \<lparr>version = Some ''1.0'', mcp_count = Some 1,
               mcp_servers = [''f''], pm_last_sync = ''t1''\<rparr>)])
   \<and> detect_plugin_drift
       (record_plugin_sync fresh_manager
          [(''p1'', \<lparr>version = Some ''1.0'', mcp_count = Some 2,
                    mcp_servers = [''a'', ''b''], pm_last_sync = ''t0''\<rparr>),
           (''p2'', \<lparr>version = Some ''1.0'', mcp_count = Some 1,
                    mcp_servers = [''c''], pm_last_sync = ''t0''\<rparr>),
           (''p3'', \<lparr>version = Some ''0.3'', mcp_count = Some 1,
                    mcp_servers = [''d''], pm_last_sync = ''t0''\<rparr>)] None)
       [(''p1'', \<lparr>version = Some ''2.0'', mcp_count = Some 3,
                 mcp_servers = [''a'', ''b'', ''e''], pm_last_sync = ''t1''\<rparr>),
        (''p2'', \<lparr>version = Some ''1.0'', mcp_count = Some 12,
                 mcp_servers = [], pm_last_sync = ''t1''\<rparr>),
        (''p4'', \<lparr>version = Some ''1.0'', mcp_count = Some 1,
                 mcp_servers = [''f''], pm_last_sync = ''t1''\<rparr>)] None
     = [(''p3'', ''removed''), (''p1'', ''version_changed: 1.0 -> 2.0''),
        (''p2'', ''mcp_count_changed: 1 -> 12''), (''p4'', ''added'')]"
  using detect_plugin_drift_reason[of
     "[(''p1'', \<lparr>version = Some ''2.0'', mcp_count = Some 3,
               mcp_servers = [''a'', ''b'', ''e''], pm_last_sync = ''t1''\<rparr>),
      (''p2'', \<lparr>version = Some ''1.0'', mcp_count = Some 12,
               mcp_servers = [], pm_last_sync = ''t1''\<rparr>),
      (''p4'', \<lparr>version = Some ''1.0'', mcp_count = Some 1,
               mcp_servers = [''f''], pm_last_sync = ''t1''\<rparr>)]"
     "record_plugin_sync fresh_manager
          [(''p1'', \<lparr>version = Some ''1.0'', mcp_count = Some 2,
                    mcp_servers = [''a'', ''b''], pm_last_sync = ''t0''\<rparr>),
           (''p2'', \<lparr>version = Some ''1.0'', mcp_count = Some 1,
                    mcp_servers = [''c''], pm_last_sync = ''t0''\<rparr>),
           (''p3'', \<lparr>version = Some ''0.3'', mcp_count = Some 1,
                    mcp_servers = [''d''], pm_last_sync = ''t0''\<rparr>)] None" None "''p1''"]
  by (simp add: detect_plugin_drift_def record_plugin_sync_def save_def fresh_manager_def
      dict_get_def dict_set_def dict_keys_def or_empty_def Let_def
      str_opt_def str_int_opt_def str_int_def digit_char_def digits_def)

subsection \<open>The secret detector\<close>

lemma scan_loop_step:
  "scan_loop u ((name, v) # rest) acc =
     (if has_safe_prefix u name \<or> keywords_in u name = [] then scan_loop u rest acc
      else case v of
             JStr s \<Rightarrow>
               if SECRET_VALUE_PATTERN_match s then scan_loop u rest (acc @ [detection_of u name])
               else scan_loop u rest acc
           | _ \<Rightarrow> Inl (PyException ''expected string or bytes-like object''))"
  by (simp add: has_safe_prefix_def keywords_in_def detection_of_def Let_def split: json.splits)

lemma scan_loop_strings:
  "list_all (\<lambda>(name, v). is_str v) env \<Longrightarrow>
   scan_loop u env acc = Inr (acc @ map (detection_of u \<circ> fst) (filter (flagged u) env))"
proof (induction env arbitrary: acc)
  case Nil
  then show ?case by simp
next
  case (Cons e env)
  obtain name v where e: "e = (name, v)" by (cases e)
  from Cons.prems e obtain s where v: "v = JStr s"
    by (cases v) (auto simp: is_str_def)
  from Cons.prems have rest: "list_all (\<lambda>(name, v). is_str v) env" by simp
  show ?case
    unfolding e v scan_loop_step
    by (simp add: Cons.IH[OF rest] flagged_def)
qed

lemma keywords_in_nonempty:
  "keywords_in u name \<noteq> [] \<longleftrightarrow> (\<exists>k \<in> set SECRET_KEYWORDS. py_in k (upper u name))"
  by (auto simp: keywords_in_def filter_empty_conv)

lemma scan_loop_result:
  "scan_loop u env acc = Inr ds \<Longrightarrow> ds = acc @ map (detection_of u \<circ> fst) (filter (flagged u) env)"
proof (induction env arbitrary: acc)
  case Nil
  then show ?case by simp
next
  case (Cons e env)
  obtain name v where e: "e = (name, v)" by (cases e)
  from Cons.prems show ?case
    unfolding e scan_loop_step
    by (auto simp: flagged_def split: if_splits json.splits dest!: Cons.IH)
qed

text \<open>
  Claim C8. On an environment map whose values are strings (the type of its argument)
  \<^verbatim>\<open>scan\<close> returns; and whenever it returns, it flags a variable if and only if the
  name, in upper case as \<^verbatim>\<open>scan\<close> compares it (\<^verbatim>\<open>var_name.upper()\<close>), contains a
  keyword of \<^verbatim>\<open>SECRET_KEYWORDS\<close>, the value is a string that matches
  \<^verbatim>\<open>SECRET_VALUE_PATTERN\<close>, and the name in upper case does not start with a prefix of
  \<^verbatim>\<open>SAFE_PREFIXES\<close>. A name with such a prefix is never flagged, whatever its value.
  This holds for every name, ASCII or not, whatever the runtime's case mapping \<open>u\<close> of
  the strings that are not ASCII.
\<close>

theorem scan_flags_iff:
  assumes keys: "distinct (dict_keys env_vars)"
  shows "(list_all (\<lambda>(name, v). is_str v) env_vars \<longrightarrow> (\<exists>detections. scan u env_vars = Inr detections))
   \<and> (scan u env_vars = Inr detections \<longrightarrow>
     (\<forall>name. name \<in> set (map var_name detections) \<longleftrightarrow>
        (\<exists>v. dict_get env_vars name = Some (JStr v)
           \<and> (\<exists>k \<in> set SECRET_KEYWORDS. py_in k (upper u name))
           \<and> SECRET_VALUE_PATTERN_match v
           \<and> \<not> list_ex (startswith (upper u name)) SAFE_PREFIXES)))"
proof (intro conjI impI)
  assume "list_all (\<lambda>(name, v). is_str v) env_vars"
  from scan_loop_strings[OF this, where acc = "[]" and u = u]
  show "\<exists>detections. scan u env_vars = Inr detections" by (simp add: scan_def)
next
  assume "scan u env_vars = Inr detections"
  then have ds: "detections = map (detection_of u \<circ> fst) (filter (flagged u) env_vars)"
    using scan_loop_result[of u env_vars "[]" detections] by (simp add: scan_def)
  show "\<forall>name. name \<in> set (map var_name detections) \<longleftrightarrow>
        (\<exists>v. dict_get env_vars name = Some (JStr v)
           \<and> (\<exists>k \<in> set SECRET_KEYWORDS. py_in k (upper u name))
           \<and> SECRET_VALUE_PATTERN_match v
           \<and> \<not> list_ex (startswith (upper u name)) SAFE_PREFIXES)"
  proof (intro allI iffI)
    fix name
    assume "name \<in> set (map var_name detections)"
    then obtain e where e: "e \<in> set env_vars" "flagged u e" "var_name (detection_of u (fst e)) = name"
      unfolding ds by auto
    obtain n v where nv: "e = (n, v)" by (cases e)
    from e nv have n: "n = name" by (simp add: detection_of_def)
    from e(2) nv obtain s where s: "v = JStr s" "SECRET_VALUE_PATTERN_match s"
      by (cases v) (auto simp: flagged_def)
    from e(1) nv n s keys have "dict_get env_vars name = Some (JStr s)"
      by (simp add: in_dict_iff)
    moreover from e(2) nv n have "\<not> has_safe_prefix u name" "keywords_in u name \<noteq> []"
      by (auto simp: flagged_def)
    ultimately show "\<exists>v. dict_get env_vars name = Some (JStr v)
           \<and> (\<exists>k \<in> set SECRET_KEYWORDS. py_in k (upper u name))
           \<and> SECRET_VALUE_PATTERN_match v
           \<and> \<not> list_ex (startswith (upper u name)) SAFE_PREFIXES"
      using s(2) by (auto simp: keywords_in_nonempty has_safe_prefix_def)
  next
    fix name
    assume "\<exists>v. dict_get env_vars name = Some (JStr v)
           \<and> (\<exists>k \<in> set SECRET_KEYWORDS. py_in k (upper u name))
           \<and> SECRET_VALUE_PATTERN_match v
           \<and> \<not> list_ex (startswith (upper u name)) SAFE_PREFIXES"
    then obtain v where v: "dict_get env_vars name = Some (JStr v)"
        "\<exists>k \<in> set SECRET_KEYWORDS. py_in k (upper u name)"
        "SECRET_VALUE_PATTERN_match v" "\<not> list_ex (startswith (upper u name)) SAFE_PREFIXES"
      by blast
    from v(1) keys have "(name, JStr v) \<in> set env_vars" by (simp add: in_dict_iff)
    moreover from v have "flagged u (name, JStr v)"
      by (simp add: flagged_def keywords_in_nonempty has_safe_prefix_def)
    ultimately have "(name, JStr v) \<in> set (filter (flagged u) env_vars)" by simp
    then have "var_name (detection_of u (fst (name, JStr v))) \<in> set (map var_name detections)"
      unfolding ds set_map comp_def by (intro imageI) (simp add: image_iff)
    then show "name \<in> set (map var_name detections)" by (simp add: detection_of_def)
  qed
qed

theorem scan_flags_iff_witness:
  "\<forall>u. distinct (dict_keys
     [(''my_api_key'', JStr ''abcdefghijklmnop''), (''TEST_TOKEN'', JNum 42),
      (''TOKEN'', JStr ''short''), (''HOME'', JStr ''/home/user/abcdefghijk'')])
   \<and> scan u
     [(''my_api_key'', JStr ''abcdefghijklmnop''), (''TEST_TOKEN'', JNum 42),
      (''TOKEN'', JStr ''short''), (''HOME'', JStr ''/home/user/abcdefghijk'')]
     = Inr [\<lparr>var_name = ''my_api_key'', keywords_matched = [''API_KEY''],
             confidence = ''medium'', reason = ''Contains keywords: API_KEY''\<rparr>]
   \<and> list_all (\<lambda>(name, v). is_str v)
     [(''TOKEN'', JStr ''sixteen.or.more.chars'')]
   \<and> scan u [(''TOKEN'', JStr ''sixteen.or.more.chars'')]
     = Inr [\<lparr>var_name = ''TOKEN'', keywords_matched = [''TOKEN''],
             confidence = ''medium'', reason = ''Contains keywords: TOKEN''\<rparr>]"
proof
  fix u
  show "distinct (dict_keys
     [(''my_api_key'', JStr ''abcdefghijklmnop''), (''TEST_TOKEN'', JNum 42),
      (''TOKEN'', JStr ''short''), (''HOME'', JStr ''/home/user/abcdefghijk'')])
   \<and> scan u
     [(''my_api_key'', JStr ''abcdefghijklmnop''), (''TEST_TOKEN'', JNum 42),
      (''TOKEN'', JStr ''short''), (''HOME'', JStr ''/home/user/abcdefghijk'')]
     = Inr [\<lparr>var_name = ''my_api_key'', keywords_matched = [''API_KEY''],
             confidence = ''medium'', reason = ''Contains keywords: API_KEY''\<rparr>]
   \<and> list_all (\<lambda>(name, v). is_str v)
     [(''TOKEN'', JStr ''sixteen.or.more.chars'')]
   \<and> scan u [(''TOKEN'', JStr ''sixteen.or.more.chars'')]
     = Inr [\<lparr>var_name = ''TOKEN'', keywords_matched = [''TOKEN''],
             confidence = ''medium'', reason = ''Contains keywords: TOKEN''\<rparr>]"
    using scan_flags_iff[of
       "[(''my_api_key'', JStr ''abcdefghijklmnop''), (''TEST_TOKEN'', JNum 42),
        (''TOKEN'', JStr ''short''), (''HOME'', JStr ''/home/user/abcdefghijk'')]"
       u
       "[\<lparr>var_name = ''my_api_key'', keywords_matched = [''API_KEY''],
               confidence = ''medium'', reason = ''Contains keywords: API_KEY''\<rparr>]"]
    by (simp add: scan_def is_str_def dict_keys_def upper_def upper_char_def is_ascii_def
        SAFE_PREFIXES_def SECRET_KEYWORDS_def SECRET_VALUE_PATTERN_match_def value_char_def
        ascii_lowercase_def ascii_uppercase_def digits_def Let_def)
qed

lemma scan_loop_value_independent:
  assumes "SECRET_VALUE_PATTERN_match v1" and "SECRET_VALUE_PATTERN_match v2"
  shows "scan_loop u (pre @ (k, JStr v1) # post) acc = scan_loop u (pre @ (k, JStr v2) # post) acc"
proof (induction pre arbitrary: acc)
  case Nil
  show ?case using assms by (simp only: append_Nil scan_loop_step json.case if_True)
next
  case (Cons e pre)
  obtain name v where e: "e = (name, v)" by (cases e)
  show ?case
    unfolding e append_Cons scan_loop_step
    by (simp add: Cons.IH split: json.splits)
qed

lemma scan_loop_detections:
  "scan_loop u env acc = Inr ds \<Longrightarrow> list_all (\<lambda>d. d = detection_of u (var_name d)) acc
     \<Longrightarrow> list_all (\<lambda>d. d = detection_of u (var_name d)) ds"
proof (induction env arbitrary: acc)
  case Nil
  then show ?case by simp
next
  case (Cons e env)
  obtain name v where e: "e = (name, v)" by (cases e)
  have d: "detection_of u name = detection_of u (var_name (detection_of u name))"
    by (simp add: detection_of_def)
  from Cons.prems show ?case
    unfolding e scan_loop_step
    using d by (auto split: if_splits json.splits intro: Cons.IH)
qed

text \<open>
  Claim C9. A detection holds the four fields \<open>var_name\<close>, \<open>keywords_matched\<close>,
  \<open>confidence\<close> and \<open>reason\<close>, each determined by the variable's name alone; and two
  environment maps that differ only in the value of one variable, both values matching
  the complexity pattern, give the same result of \<^verbatim>\<open>scan\<close>, hence the same formatted
  warnings.
\<close>

theorem scan_never_carries_value:
  assumes "SECRET_VALUE_PATTERN_match v1" and "SECRET_VALUE_PATTERN_match v2"
  shows "scan u (pre @ (k, JStr v1) # post) = scan u (pre @ (k, JStr v2) # post)
     \<and> (scan u (pre @ (k, JStr v1) # post) = Inr detections \<longrightarrow>
          list_all (\<lambda>d. d = detection_of u (var_name d)) detections)
     \<and> map_sum id format_warnings (scan u (pre @ (k, JStr v1) # post))
         = map_sum id format_warnings (scan u (pre @ (k, JStr v2) # post))"
  using scan_loop_value_independent[OF assms, of u pre k post "[]"]
    scan_loop_detections[of u "pre @ (k, JStr v1) # post" "[]" detections]
  by (simp add: scan_def)

theorem scan_never_carries_value_witness:
  "\<forall>u. SECRET_VALUE_PATTERN_match ''abcdefghijklmnop'' \<and>
   SECRET_VALUE_PATTERN_match ''0123456789/ABCDEF+xyz=''
   \<and> scan u ([(''HOME'', JStr ''/root'')] @ (''API_TOKEN'', JStr ''abcdefghijklmnop'') # [])
     = scan u ([(''HOME'', JStr ''/root'')] @ (''API_TOKEN'', JStr ''0123456789/ABCDEF+xyz='') # [])
   \<and> scan u ([(''HOME'', JStr ''/root'')] @ (''API_TOKEN'', JStr ''abcdefghijklmnop'') # [])
     = Inr [\<lparr>var_name = ''API_TOKEN'', keywords_matched = [''TOKEN''],
             confidence = ''medium'', reason = ''Contains keywords: TOKEN''\<rparr>]"
proof
  fix u
  show "SECRET_VALUE_PATTERN_match ''abcdefghijklmnop'' \<and>
   SECRET_VALUE_PATTERN_match ''0123456789/ABCDEF+xyz=''
   \<and> scan u ([(''HOME'', JStr ''/root'')] @ (''API_TOKEN'', JStr ''abcdefghijklmnop'') # [])
     = scan u ([(''HOME'', JStr ''/root'')] @ (''API_TOKEN'', JStr ''0123456789/ABCDEF+xyz='') # [])
   \<and> scan u ([(''HOME'', JStr ''/root'')] @ (''API_TOKEN'', JStr ''abcdefghijklmnop'') # [])
     = Inr [\<lparr>var_name = ''API_TOKEN'', keywords_matched = [''TOKEN''],
             confidence = ''medium'', reason = ''Contains keywords: TOKEN''\<rparr>]"
    using scan_never_carries_value[of "''abcdefghijklmnop''" "''0123456789/ABCDEF+xyz=''"
        u "[(''HOME'', JStr ''/root'')]" "''API_TOKEN''" "[]"]
    by (simp add: scan_def upper_def upper_char_def is_ascii_def SAFE_PREFIXES_def
        SECRET_KEYWORDS_def SECRET_VALUE_PATTERN_match_def value_char_def ascii_lowercase_def
        ascii_uppercase_def digits_def)
qed

subsection \<open>Scope precedence\<close>

lemma dict_get_Nil: "dict_get [] name = None"
  by (simp add: dict_get_def)

lemma add_file_layer_get:
  "distinct (dict_keys layer) \<Longrightarrow>
   dict_get (add_file_layer sc layer servers) name =
     (case dict_get layer name of
        Some cfg \<Rightarrow> Some (file_entry sc cfg)
      | None \<Rightarrow> dict_get servers name)"
proof (induction layer arbitrary: servers)
  case Nil
  then show ?case by (simp add: dict_get_def)
next
  case (Cons e layer)
  obtain k cfg where e: "e = (k, cfg)" by (cases e)
  from Cons.prems e have d: "distinct (dict_keys layer)" and k: "dict_get layer k = None"
    by (auto simp: dict_keys_def dict_get_def map_of_eq_None_iff)
  show ?case
    using Cons.IH[OF d] k by (auto simp: e dict_get_Cons dict_get_set split: option.splits)
qed

lemma add_plugin_layer_get:
  "dict_get (add_plugin_layer layer servers) name =
     (case dict_get servers name of
        Some entry \<Rightarrow> Some entry
      | None \<Rightarrow> map_option plugin_entry (dict_get layer name))"
proof (induction layer arbitrary: servers)
  case Nil
  then show ?case by (simp add: dict_get_def split: option.splits)
next
  case (Cons e layer)
  obtain k cfg where e: "e = (k, cfg)" by (cases e)
  show ?case
    using Cons.IH
    by (auto simp: e dict_get_Cons dict_get_set dict_get_None_iff[symmetric]
        split: option.splits)
qed

lemma add_file_layer_distinct:
  "distinct (dict_keys servers) \<Longrightarrow> distinct (dict_keys (add_file_layer sc layer servers))"
  by (induction layer arbitrary: servers) (auto simp: distinct_dict_set)

lemma add_plugin_layer_distinct:
  "distinct (dict_keys servers) \<Longrightarrow> distinct (dict_keys (add_plugin_layer layer servers))"
  by (induction layer arbitrary: servers) (auto simp: distinct_dict_set)

lemma get_mcp_servers_with_scope_layers:
  "get_mcp_servers_with_scope self =
     add_file_layer ''local'' (layer_if (project_layers_read self) (local_scope_mcps self))
       (add_file_layer ''project'' (layer_if (project_layers_read self) (project_scope_mcps self))
          (add_plugin_layer (layer_if (user_layers_read self) (plugin_mcp_servers self))
             (add_file_layer ''user'' (layer_if (user_layers_read self) (user_scope_mcps self))
                [])))"
  by (simp add: get_mcp_servers_with_scope_def layer_if_def user_layers_read_def
      project_layers_read_def Let_def)

lemma layer_if_distinct: "distinct (dict_keys layer) \<Longrightarrow> distinct (dict_keys (layer_if b layer))"
  by (simp add: layer_if_def dict_keys_def)

lemma dict_get_set_eq:
  "distinct (dict_keys a) \<Longrightarrow> distinct (dict_keys b) \<Longrightarrow> set a = set b
     \<Longrightarrow> dict_get a name = dict_get b name"
  using map_of_inject_set[of a b] by (simp add: dict_get_def dict_keys_def)

lemma scoped_lookup:
  assumes "distinct (dict_keys (user_scope_mcps self))"
      and "distinct (dict_keys (project_scope_mcps self))"
      and "distinct (dict_keys (local_scope_mcps self))"
  shows "dict_get (get_mcp_servers_with_scope self) name =
     (case dict_get (layer_if (project_layers_read self) (local_scope_mcps self)) name of
        Some cfg \<Rightarrow> Some (file_entry ''local'' cfg)
      | None \<Rightarrow>
     (case dict_get (layer_if (project_layers_read self) (project_scope_mcps self)) name of
        Some cfg \<Rightarrow> Some (file_entry ''project'' cfg)
      | None \<Rightarrow>
     (case dict_get (layer_if (user_layers_read self) (user_scope_mcps self)) name of
        Some cfg \<Rightarrow> Some (file_entry ''user'' cfg)
      | None \<Rightarrow>
     (case dict_get (layer_if (user_layers_read self) (plugin_mcp_servers self)) name of
        Some cfg \<Rightarrow> Some (plugin_entry cfg)
      | None \<Rightarrow> None))))"
  unfolding get_mcp_servers_with_scope_layers
  using assms
  by (auto simp: add_file_layer_get add_plugin_layer_get layer_if_distinct dict_get_Nil
      split: option.splits)

lemma startswith_underscore: "startswith k ''_'' \<longleftrightarrow> take 1 k = ''_''"
  by (cases k) simp_all

lemma file_entry_literal:
  "file_entry sc cfg =
     \<lparr>config = cfg,
      metadata = \<lparr>md_scope = sc, md_source = ''file'',
                  plugin_name = None, plugin_version = None\<rparr>\<rparr>"
  by (simp add: file_entry_def)

lemma plugin_entry_literal:
  "plugin_entry cfg =
     \<lparr>config = filter (\<lambda>(k, v). take 1 k \<noteq> ''_'') cfg,
      metadata =
        \<lparr>md_scope = ''user'', md_source = ''plugin'',
         plugin_name =
           Some (case dict_get cfg ''_plugin_name'' of
                   None \<Rightarrow> JStr ''unknown'' | Some v \<Rightarrow> v),
         plugin_version =
           Some (case dict_get cfg ''_plugin_version'' of
                   None \<Rightarrow> JStr ''unknown'' | Some v \<Rightarrow> v)\<rparr>\<rparr>"
  by (simp add: plugin_entry_def dict_get_or_def startswith_underscore Let_def)

text \<open>
  Claim C2. The entry \<^verbatim>\<open>get_mcp_servers_with_scope\<close> returns for a name is the one of
  the highest layer that holds the name, among the layers the scope filter reads: local
  over project over user file over plugin. The entry is given in full: for a file-based
  layer, the configuration found in that layer, unchanged, with the layer's scope and
  source \<open>file\<close>; for a plugin, the configuration without its underscore keys, with
  scope \<open>user\<close>, source \<open>plugin\<close>, and the plugin's name and version as the
  configuration holds them (\<open>unknown\<close> when the key is missing). The result depends on
  the layers' contents only, not on the order in which a layer lists its servers. A
  plugin entry is returned only when no file-based user entry (nor a project or local
  one) has the name. No name is returned twice.
\<close>

theorem scope_precedence:
  assumes "distinct (dict_keys (user_scope_mcps self))"
      and "distinct (dict_keys (plugin_mcp_servers self))"
      and "distinct (dict_keys (project_scope_mcps self))"
      and "distinct (dict_keys (local_scope_mcps self))"
      and "distinct (dict_keys (user_scope_mcps other))"
      and "distinct (dict_keys (plugin_mcp_servers other))"
      and "distinct (dict_keys (project_scope_mcps other))"
      and "distinct (dict_keys (local_scope_mcps other))"
      and "sr_scope other = sr_scope self" and "project_dir other = project_dir self"
      and "set (user_scope_mcps other) = set (user_scope_mcps self)"
      and "set (plugin_mcp_servers other) = set (plugin_mcp_servers self)"
      and "set (project_scope_mcps other) = set (project_scope_mcps self)"
      and "set (local_scope_mcps other) = set (local_scope_mcps self)"
  shows "dict_get (get_mcp_servers_with_scope self) name =
     (case dict_get (layer_if (project_layers_read self) (local_scope_mcps self)) name of
        Some cfg \<Rightarrow>
          Some \<lparr>config = cfg,
                metadata = \<lparr>md_scope = ''local'', md_source = ''file'',
                            plugin_name = None, plugin_version = None\<rparr>\<rparr>
      | None \<Rightarrow>
     (case dict_get (layer_if (project_layers_read self) (project_scope_mcps self)) name of
        Some cfg \<Rightarrow>
          Some \<lparr>config = cfg,
                metadata = \<lparr>md_scope = ''project'', md_source = ''file'',
                            plugin_name = None, plugin_version = None\<rparr>\<rparr>
      | None \<Rightarrow>
     (case dict_get (layer_if (user_layers_read self) (user_scope_mcps self)) name of
        Some cfg \<Rightarrow>
          Some \<lparr>config = cfg,
                metadata = \<lparr>md_scope = ''user'', md_source = ''file'',
                            plugin_name = None, plugin_version = None\<rparr>\<rparr>
      | None \<Rightarrow>
     (case dict_get (layer_if (user_layers_read self) (plugin_mcp_servers self)) name of
        Some cfg \<Rightarrow>
          Some \<lparr>config = filter (\<lambda>(k, v). take 1 k \<noteq> ''_'') cfg,
                metadata =
                  \<lparr>md_scope = ''user'', md_source = ''plugin'',
                   plugin_name =
                     Some (case dict_get cfg ''_plugin_name'' of
                             None \<Rightarrow> JStr ''unknown'' | Some v \<Rightarrow> v),
                   plugin_version =
                     Some (case dict_get cfg ''_plugin_version'' of
                             None \<Rightarrow> JStr ''unknown'' | Some v \<Rightarrow> v)\<rparr>\<rparr>
      | None \<Rightarrow> None))))
   \<and> dict_get (get_mcp_servers_with_scope other) name
       = dict_get (get_mcp_servers_with_scope self) name
   \<and> distinct (dict_keys (get_mcp_servers_with_scope self))
   \<and> md_scope (metadata (plugin_entry cfg)) = ''user''
   \<and> md_source (metadata (plugin_entry cfg)) = ''plugin''
   \<and> md_scope (metadata (file_entry sc cfg)) = sc
   \<and> md_source (metadata (file_entry sc cfg)) = ''file''"
proof -
  have rd: "user_layers_read other = user_layers_read self"
      "project_layers_read other = project_layers_read self"
    using assms(9,10) by (simp_all add: user_layers_read_def project_layers_read_def)
  have eqs: "dict_get (layer_if b (user_scope_mcps other)) name
           = dict_get (layer_if b (user_scope_mcps self)) name"
       "dict_get (layer_if b (plugin_mcp_servers other)) name
           = dict_get (layer_if b (plugin_mcp_servers self)) name"
       "dict_get (layer_if b (project_scope_mcps other)) name
           = dict_get (layer_if b (project_scope_mcps self)) name"
       "dict_get (layer_if b (local_scope_mcps other)) name
           = dict_get (layer_if b (local_scope_mcps self)) name" for b
    using assms dict_get_set_eq[of "user_scope_mcps other" "user_scope_mcps self" name]
      dict_get_set_eq[of "plugin_mcp_servers other" "plugin_mcp_servers self" name]
      dict_get_set_eq[of "project_scope_mcps other" "project_scope_mcps self" name]
      dict_get_set_eq[of "local_scope_mcps other" "local_scope_mcps self" name]
    by (simp_all add: layer_if_def)
  have 1: "dict_get (get_mcp_servers_with_scope other) name
       = dict_get (get_mcp_servers_with_scope self) name"
    using scoped_lookup[OF assms(1,3,4), of name] scoped_lookup[OF assms(5,7,8), of name]
    by (simp add: rd eqs cong: option.case_cong)
  have 2: "distinct (dict_keys (get_mcp_servers_with_scope self))"
    unfolding get_mcp_servers_with_scope_layers
    by (intro add_file_layer_distinct add_plugin_layer_distinct) (simp add: dict_keys_def)
  have 3: "md_scope (metadata (plugin_entry cfg)) = ''user''
      \<and> md_source (metadata (plugin_entry cfg)) = ''plugin''
      \<and> md_scope (metadata (file_entry sc cfg)) = sc
      \<and> md_source (metadata (file_entry sc cfg)) = ''file''"
    by (simp add: plugin_entry_def file_entry_def Let_def)
  have 4: "dict_get (get_mcp_servers_with_scope self) name =
     (case dict_get (layer_if (project_layers_read self) (local_scope_mcps self)) name of
        Some cfg \<Rightarrow>
          Some \<lparr>config = cfg,
                metadata = \<lparr>md_scope = ''local'', md_source = ''file'',
                            plugin_name = None, plugin_version = None\<rparr>\<rparr>
      | None \<Rightarrow>
     (case dict_get (layer_if (project_layers_read self) (project_scope_mcps self)) name of
        Some cfg \<Rightarrow>
          Some \<lparr>config = cfg,
                metadata = \<lparr>md_scope = ''project'', md_source = ''file'',
                            plugin_name = None, plugin_version = None\<rparr>\<rparr>
      | None \<Rightarrow>
     (case dict_get (layer_if (user_layers_read self) (user_scope_mcps self)) name of
        Some cfg \<Rightarrow>
          Some \<lparr>config = cfg,
                metadata = \<lparr>md_scope = ''user'', md_source = ''file'',
                            plugin_name = None, plugin_version = None\<rparr>\<rparr>
      | None \<Rightarrow>
     (case dict_get (layer_if (user_layers_read self) (plugin_mcp_servers self)) name of
        Some cfg \<Rightarrow>
          Some \<lparr>config = filter (\<lambda>(k, v). take 1 k \<noteq> ''_'') cfg,
                metadata =
                  \<lparr>md_scope = ''user'', md_source = ''plugin'',
                   plugin_name =
                     Some (case dict_get cfg ''_plugin_name'' of
                             None \<Rightarrow> JStr ''unknown'' | Some v \<Rightarrow> v),
                   plugin_version =
                     Some (case dict_get cfg ''_plugin_version'' of
                             None \<Rightarrow> JStr ''unknown'' | Some v \<Rightarrow> v)\<rparr>\<rparr>
      | None \<Rightarrow> None))))"
    unfolding scoped_lookup[OF assms(1,3,4), of name] file_entry_literal plugin_entry_literal
    by (rule refl)
  show ?thesis
    using 1 2 3 4 by blast
qed

theorem scope_precedence_witness:
  "dict_get (get_mcp_servers_with_scope
       \<lparr>sr_scope = ''all'', project_dir = Some ''/p'',
        user_scope_mcps = [(''db'', [(''command'', JStr ''user-db'')]),
                           (''fmt'', [(''command'', JStr ''user-fmt'')])],
        plugin_mcp_servers = [(''fmt'', [(''command'', JStr ''plugin-fmt''),
                                          (''_plugin_name'', JStr ''tools'')]),
                              (''lint'', [(''command'', JStr ''plugin-lint''),
                                           (''_plugin_name'', JStr ''tools''),
                                           (''_plugin_version'', JStr ''1.2'')]),
                              (''aux'', [(''_plugin_version'', JNull),
                                          (''command'', JStr ''plugin-aux'')])],
        project_scope_mcps = [(''db'', [(''command'', JStr ''project-db'')])],
        local_scope_mcps = [(''db'', [(''command'', JStr ''local-db'')])]\<rparr>) ''db''
     = Some \<lparr>config = [(''command'', JStr ''local-db'')],
             metadata = \<lparr>md_scope = ''local'', md_source = ''file'',
                         plugin_name = None, plugin_version = None\<rparr>\<rparr>
   \<and> dict_get (get_mcp_servers_with_scope
       \<lparr>sr_scope = ''all'', project_dir = Some ''/p'',
        user_scope_mcps = [(''fmt'', [(''command'', JStr ''user-fmt'')]),
                           (''db'', [(''command'', JStr ''user-db'')])],
        plugin_mcp_servers = [(''aux'', [(''_plugin_version'', JNull),
                                          (''command'', JStr ''plugin-aux'')]),
                              (''lint'', [(''command'', JStr ''plugin-lint''),
                                           (''_plugin_name'', JStr ''tools''),
                                           (''_plugin_version'', JStr ''1.2'')]),
                              (''fmt'', [(''command'', JStr ''plugin-fmt''),
                                          (''_plugin_name'', JStr ''tools'')])],
        project_scope_mcps = [(''db'', [(''command'', JStr ''project-db'')])],
        local_scope_mcps = [(''db'', [(''command'', JStr ''local-db'')])]\<rparr>) ''db''
     = Some \<lparr>config = [(''command'', JStr ''local-db'')],
             metadata = \<lparr>md_scope = ''local'', md_source = ''file'',
                         plugin_name = None, plugin_version = None\<rparr>\<rparr>
   \<and> get_mcp_servers_with_scope
       \<lparr>sr_scope = ''all'', project_dir = Some ''/p'',
        user_scope_mcps = [(''db'', [(''command'', JStr ''user-db'')]),
                           (''fmt'', [(''command'', JStr ''user-fmt'')])],
        plugin_mcp_servers = [(''fmt'', [(''command'', JStr ''plugin-fmt''),
                                          (''_plugin_name'', JStr ''tools'')]),
                              (''lint'', [(''command'', JStr ''plugin-lint''),
                                           (''_plugin_name'', JStr ''tools''),
                                           (''_plugin_version'', JStr ''1.2'')]),
                              (''aux'', [(''_plugin_version'', JNull),
                                          (''command'', JStr ''plugin-aux'')])],
        project_scope_mcps = [(''db'', [(''command'', JStr ''project-db'')])],
        local_scope_mcps = [(''db'', [(''command'', JStr ''local-db'')])]\<rparr>
     = [(''db'',
         \<lparr>config = [(''command'', JStr ''local-db'')],
          metadata = \<lparr>md_scope = ''local'', md_source = ''file'',
                      plugin_name = None, plugin_version = None\<rparr>\<rparr>),
        (''fmt'',
         \<lparr>config = [(''command'', JStr ''user-fmt'')],
          metadata = \<lparr>md_scope = ''user'', md_source = ''file'',
                      plugin_name = None, plugin_version = None\<rparr>\<rparr>),
        (''lint'',
         \<lparr>config = [(''command'', JStr ''plugin-lint'')],
          metadata = \<lparr>md_scope = ''user'', md_source = ''plugin'',
                      plugin_name = Some (JStr ''tools''),
                      plugin_version = Some (JStr ''1.2'')\<rparr>\<rparr>),
        (''aux'',
         \<lparr>config = [(''command'', JStr ''plugin-aux'')],
          metadata = \<lparr>md_scope = ''user'', md_source = ''plugin'',
                      plugin_name = Some (JStr ''unknown''),
                      plugin_version = Some JNull\<rparr>\<rparr>)]"
  using scope_precedence[of
       "\<lparr>sr_scope = ''all'', project_dir = Some ''/p'',
        user_scope_mcps = [(''db'', [(''command'', JStr ''user-db'')]),
                           (''fmt'', [(''command'', JStr ''user-fmt'')])],
        plugin_mcp_servers = [(''fmt'', [(''command'', JStr ''plugin-fmt''),
                                          (''_plugin_name'', JStr ''tools'')]),
                              (''lint'', [(''command'', JStr ''plugin-lint''),
                                           (''_plugin_name'', JStr ''tools''),
                                           (''_plugin_version'', JStr ''1.2'')]),
                              (''aux'', [(''_plugin_version'', JNull),
                                          (''command'', JStr ''plugin-aux'')])],
        project_scope_mcps = [(''db'', [(''command'', JStr ''project-db'')])],
        local_scope_mcps = [(''db'', [(''command'', JStr ''local-db'')])]\<rparr>"
       "\<lparr>sr_scope = ''all'', project_dir = Some ''/p'',
        user_scope_mcps = [(''fmt'', [(''command'', JStr ''user-fmt'')]),
                           (''db'', [(''command'', JStr ''user-db'')])],
        plugin_mcp_servers = [(''aux'', [(''_plugin_version'', JNull),
                                          (''command'', JStr ''plugin-aux'')]),
                              (''lint'', [(''command'', JStr ''plugin-lint''),
                                           (''_plugin_name'', JStr ''tools''),
                                           (''_plugin_version'', JStr ''1.2'')]),
                              (''fmt'', [(''command'', JStr ''plugin-fmt''),
                                          (''_plugin_name'', JStr ''tools'')])],
        project_scope_mcps = [(''db'', [(''command'', JStr ''project-db'')])],
        local_scope_mcps = [(''db'', [(''command'', JStr ''local-db'')])]\<rparr>"
       "''db''"]
  by (simp add: get_mcp_servers_with_scope_def dict_get_def dict_set_def dict_keys_def
      file_entry_def plugin_entry_def dict_get_or_def Let_def)

subsection \<open>The adapter contract\<close>

lemma try_sync_raise:
  "try_sync category (Inl (PyException e)) =
     \<lparr>synced = 0, skipped = 0, failed = 1, adapted = 0,
      synced_files = [], skipped_files = [], failed_files = [category @ '': '' @ e]\<rparr>"
  by (simp add: try_sync_def failed_result_def SyncResult0_def)

text \<open>
  Claim C3, as amended. \<^verbatim>\<open>sync_all\<close> makes six calls in the fixed order rules,
  skills, agents, commands, MCP, settings, each on the files as the call before left them.
  The MCP call is \<^verbatim>\<open>sync_mcp_scoped\<close> when the snapshot's scoped MCP map is not empty
  and \<^verbatim>\<open>sync_mcp\<close> otherwise; the inherited \<^verbatim>\<open>sync_mcp_scoped\<close> then calls
  \<^verbatim>\<open>sync_mcp\<close>. It returns normally, with one entry per category in that order: the
  operation's result, or for an operation that raised the record with \<open>failed = 1\<close> and
  the message \<open>category: error\<close>, the other categories being processed all the same.
\<close>

theorem sync_all_isolates:
  "(case sync_rules self (case sd_rules source_data of None \<Rightarrow> RulesDefault
                          | Some t \<Rightarrow> RulesText t) fs of (r1, fs1) \<Rightarrow>
    case sync_skills self (or_empty (sd_skills source_data)) fs1 of (r2, fs2) \<Rightarrow>
    case sync_agents self (or_empty (sd_agents source_data)) fs2 of (r3, fs3) \<Rightarrow>
    case sync_commands self (or_empty (sd_commands source_data)) fs3 of (r4, fs4) \<Rightarrow>
    case (if or_empty (sd_mcp_scoped source_data) = []
          then sync_mcp self (or_empty (sd_mcp source_data)) fs4
          else case sync_mcp_scoped self of
                 Some f \<Rightarrow> f (or_empty (sd_mcp_scoped source_data)) fs4
               | None \<Rightarrow> sync_mcp self (flat_of (or_empty (sd_mcp_scoped source_data))) fs4)
      of (r5, fs5) \<Rightarrow>
    case sync_settings self (or_empty (sd_settings source_data)) fs5 of (r6, fs6) \<Rightarrow>
      sync_all self source_data (fs, calls) =
        (Inr [(''rules'', try_sync ''rules'' r1), (''skills'', try_sync ''skills'' r2),
              (''agents'', try_sync ''agents'' r3), (''commands'', try_sync ''commands'' r4),
              (''mcp'', try_sync ''mcp'' r5), (''settings'', try_sync ''settings'' r6)],
         (fs6,
          calls @ [OpRules, OpSkills, OpAgents, OpCommands]
            @ (if or_empty (sd_mcp_scoped source_data) = [] then [OpMcp]
               else case sync_mcp_scoped self of
                      Some f \<Rightarrow> [OpMcpScoped]
                    | None \<Rightarrow> [OpMcpScoped, OpMcp])
            @ [OpSettings])))
   \<and> try_sync category (Inr res) = res
   \<and> try_sync category (Inl (PyException e)) =
       \<lparr>synced = 0, skipped = 0, failed = 1, adapted = 0,
        synced_files = [], skipped_files = [], failed_files = [category @ '': '' @ e]\<rparr>"
  by (simp add: sync_all_def invoke_def call_sync_mcp_scoped_def Let_def dict_set_def
      try_sync_raise split: prod.splits option.splits)
     (simp add: try_sync_def)
theorem sync_all_isolates_witness:
  "sync_all
     \<lparr>target_name = ''demo'',
      sync_rules = (\<lambda>a fs. (Inr (SyncResult0\<lparr>synced := 1\<rparr>), fs + 1)),
      sync_skills = (\<lambda>a fs. (Inr SyncResult0, fs)),
      sync_agents = (\<lambda>a fs. (Inr SyncResult0, fs)),
      sync_commands = (\<lambda>a fs. (Inr SyncResult0, fs)),
      sync_mcp = (\<lambda>a fs. (Inl (PyException ''disk full''), fs)),
      sync_mcp_scoped = None,
      sync_settings = (\<lambda>a fs. (Inr (SyncResult0\<lparr>skipped := 1\<rparr>), fs + 1))\<rparr>
     \<lparr>sd_rules = Some ''be kind'', sd_skills = None, sd_agents = None, sd_commands = None,
      sd_mcp = None,
      sd_mcp_scoped = Some [(''db'', file_entry ''user'' [(''command'', JStr ''db'')])],
      sd_settings = None\<rparr>
     (0 :: nat, [])
   = (Inr [(''rules'', SyncResult0\<lparr>synced := 1\<rparr>), (''skills'', SyncResult0),
           (''agents'', SyncResult0), (''commands'', SyncResult0),
           (''mcp'', SyncResult0\<lparr>failed := 1, failed_files := [''mcp: disk full'']\<rparr>),
           (''settings'', SyncResult0\<lparr>skipped := 1\<rparr>)],
      (2, [OpRules, OpSkills, OpAgents, OpCommands, OpMcpScoped, OpMcp, OpSettings]))"
  using sync_all_isolates[of
     "\<lparr>target_name = ''demo'',
      sync_rules = (\<lambda>a fs. (Inr (SyncResult0\<lparr>synced := 1\<rparr>), fs + 1)),
      sync_skills = (\<lambda>a fs. (Inr SyncResult0, fs)),
      sync_agents = (\<lambda>a fs. (Inr SyncResult0, fs)),
      sync_commands = (\<lambda>a fs. (Inr SyncResult0, fs)),
      sync_mcp = (\<lambda>a fs. (Inl (PyException ''disk full''), fs)),
      sync_mcp_scoped = None,
      sync_settings = (\<lambda>a fs. (Inr (SyncResult0\<lparr>skipped := 1\<rparr>), fs + 1))\<rparr>"
     "\<lparr>sd_rules = Some ''be kind'', sd_skills = None, sd_agents = None, sd_commands = None,
      sd_mcp = None,
      sd_mcp_scoped = Some [(''db'', file_entry ''user'' [(''command'', JStr ''db'')])],
      sd_settings = None\<rparr>"
     "0 :: nat" "[]"]
  by (simp add: or_empty_def try_sync_def failed_result_def SyncResult0_def)

text \<open>
  The claim as stated fails for an adapter that defines \<^verbatim>\<open>sync_mcp_scoped\<close> itself
  without calling \<^verbatim>\<open>sync_mcp\<close> (as the Codex and Gemini adapters do): with scoped MCP
  data present, six operations are called, not seven, and \<^verbatim>\<open>sync_mcp\<close> is not among
  them.
\<close>

theorem sync_all_scoped_counterexample:
  "snd (snd (sync_all
     \<lparr>target_name = ''codex'',
      sync_rules = (\<lambda>a fs. (Inr SyncResult0, fs)),
      sync_skills = (\<lambda>a fs. (Inr SyncResult0, fs)),
      sync_agents = (\<lambda>a fs. (Inr SyncResult0, fs)),
      sync_commands = (\<lambda>a fs. (Inr SyncResult0, fs)),
      sync_mcp = (\<lambda>a fs. (Inr SyncResult0, fs)),
      sync_mcp_scoped = Some (\<lambda>a fs. (Inr (SyncResult0\<lparr>synced := 1\<rparr>), fs + 1)),
      sync_settings = (\<lambda>a fs. (Inr SyncResult0, fs))\<rparr>
     \<lparr>sd_rules = Some ''be kind'', sd_skills = None, sd_agents = None, sd_commands = None,
      sd_mcp = Some [(''db'', JObj [(''command'', JStr ''db'')])],
      sd_mcp_scoped = Some [(''db'', file_entry ''user'' [(''command'', JStr ''db'')])],
      sd_settings = None\<rparr>
     (0 :: nat, [])))
   = [OpRules, OpSkills, OpAgents, OpCommands, OpMcpScoped, OpSettings]"
  by (simp add: sync_all_def invoke_def call_sync_mcp_scoped_def Let_def or_empty_def)

subsection \<open>The state update of a run\<close>

lemma account_plugins_nonempty: "r\<lparr>as_plugins := Some p\<rparr> \<noteq> AccountState0"
  by (cases r) (simp add: AccountState0_def)

lemma as_plugins_empty: "as_plugins AccountState0 = None"
  by (simp add: AccountState0_def)

lemma as_plugins_if: "as_plugins (if P then r\<lparr>as_targets := t\<rparr> else r) = as_plugins r"
  by simp

lemma record_sync_flat_frame:
  "accounts (sm_state (record_sync sm target scope hashes sync_methods a b c None now))
     = accounts (sm_state sm)
   \<and> plugins (sm_state (record_sync sm target scope hashes sync_methods a b c None now))
     = plugins (sm_state sm)"
  by (simp add: record_sync_def save_def Let_def split del: if_split)

lemma record_sync_account_frame:
  "(\<exists>a2. dict_get (or_empty (accounts
            (sm_state (record_sync sm target scope hashes sync_methods a b c (Some acct) now))))
          acct = Some a2
     \<and> a2 \<noteq> AccountState0
     \<and> as_plugins a2 =
         (case dict_get (or_empty (accounts (sm_state sm))) acct of
            None \<Rightarrow> None
          | Some a0 \<Rightarrow> as_plugins a0))
   \<and> (acct' \<noteq> acct \<longrightarrow>
        dict_get (or_empty (accounts
            (sm_state (record_sync sm target scope hashes sync_methods a b c (Some acct) now))))
          acct' = dict_get (or_empty (accounts (sm_state sm))) acct')
   \<and> plugins (sm_state (record_sync sm target scope hashes sync_methods a b c (Some acct) now))
          = plugins (sm_state sm)"
  by (simp add: record_sync_def save_def Let_def account_with_targets_nonempty
      as_plugins_empty as_plugins_if dict_get_set or_empty_simps
      split del: if_split split: option.splits)

lemma record_sync_plugin_status:
  "get_plugin_status (record_sync sm target scope hashes sync_methods a b c account now) account'
     = get_plugin_status sm account'"
proof (cases account)
  case None
  then show ?thesis
    using record_sync_flat_frame[of sm target scope hashes sync_methods a b c now]
    by (cases account') (simp_all add: get_plugin_status_def)
next
  case (Some acct)
  let ?R = "record_sync sm target scope hashes sync_methods a b c (Some acct) now"
  show ?thesis
  proof (cases account')
    case None
    then show ?thesis
      using Some record_sync_account_frame[of sm target scope hashes sync_methods a b c acct now]
      by (simp add: get_plugin_status_def)
  next
    case s: (Some acct')
    show ?thesis
    proof (cases "acct' = acct")
      case False
      then show ?thesis
        using Some s
          record_sync_account_frame[of sm target scope hashes sync_methods a b c acct now acct']
        by (simp add: get_plugin_status_def)
    next
      case True
      from record_sync_account_frame[of sm target scope hashes sync_methods a b c acct now acct']
      obtain a2 where a2:
          "dict_get (or_empty (accounts (sm_state ?R))) acct = Some a2"
          "a2 \<noteq> AccountState0"
          "as_plugins a2 =
             (case dict_get (or_empty (accounts (sm_state sm))) acct of
                None \<Rightarrow> None
              | Some a0 \<Rightarrow> as_plugins a0)"
        by blast
      then show ?thesis using Some s True
        by (auto simp: get_plugin_status_def or_empty_simps AccountState0_def
            split: option.splits)
    qed
  qed
qed

lemma record_targets_plugin_status:
  "get_plugin_status (record_targets results scope hashes account now sm) account'
     = get_plugin_status sm account'"
proof (induction results arbitrary: sm)
  case Nil
  then show ?case by simp
next
  case (Cons e results)
  obtain target tr where e: "e = (target, tr)" by (cases e)
  show ?case
    by (simp add: e Cons.IH record_sync_plugin_status split: prod.splits)
qed

lemma record_targets_in_sync:
  "sm_file sm = Some (sm_state sm) \<Longrightarrow>
   sm_file (record_targets results scope hashes account now sm)
     = Some (sm_state (record_targets results scope hashes account now sm))"
proof (induction results arbitrary: sm)
  case Nil
  then show ?case by simp
next
  case (Cons e results)
  obtain target tr where e: "e = (target, tr)" by (cases e)
  obtain a b c where s: "sum_counts tr = (a, b, c)" by (cases "sum_counts tr")
  show ?case
    using Cons.prems by (auto simp: e s record_sync_saved intro: Cons.IH)
qed

lemma record_targets_file:
  "record_targets results scope hashes account now sm = sm
   \<or> sm_file (record_targets results scope hashes account now sm)
       = Some (sm_state (record_targets results scope hashes account now sm))"
proof (induction results arbitrary: sm)
  case Nil
  then show ?case by simp
next
  case (Cons e results)
  obtain target tr where e: "e = (target, tr)" by (cases e)
  obtain a b c where s: "sum_counts tr = (a, b, c)" by (cases "sum_counts tr")
  show ?case
    using Cons.IH[of sm]
      record_targets_in_sync[of "record_sync sm target scope hashes [] a b c account now"]
    by (auto simp: e s record_sync_saved)
qed

lemma extract_loop_keeps:
  "plugins_acc \<noteq> [] \<Longrightarrow> extract_loop mcp_scoped now plugins_acc \<noteq> []"
proof (induction mcp_scoped arbitrary: plugins_acc)
  case Nil
  then show ?case by simp
next
  case (Cons e mcp_scoped)
  obtain name entry where e: "e = (name, entry)" by (cases e)
  have ne: "dict_set d k v \<noteq> []" for d :: "(json, json PluginMeta) pydict" and k v
    by (cases d) (simp_all add: dict_set_def)
  show ?case
    using Cons.prems by (auto simp: e Let_def intro!: Cons.IH ne)
qed

lemma extract_loop_none:
  "\<not> plugin_sourced mcp_scoped \<Longrightarrow> extract_loop mcp_scoped now plugins_acc = plugins_acc"
  by (induction mcp_scoped arbitrary: plugins_acc) (auto simp: plugin_sourced_def Let_def)

lemma extract_loop_some:
  "plugin_sourced mcp_scoped \<Longrightarrow> extract_loop mcp_scoped now plugins_acc \<noteq> []"
proof (induction mcp_scoped arbitrary: plugins_acc)
  case Nil
  then show ?case by (simp add: plugin_sourced_def)
next
  case (Cons e mcp_scoped)
  obtain name entry where e: "e = (name, entry)" by (cases e)
  have ne: "dict_set d k v \<noteq> []" for d :: "(json, json PluginMeta) pydict" and k v
    by (cases d) (simp_all add: dict_set_def)
  show ?case
  proof (cases "md_source (metadata entry) = ''plugin''")
    case True
    then show ?thesis
      by (simp add: e Let_def extract_loop_keeps ne)
  next
    case False
    with Cons.prems e have "plugin_sourced mcp_scoped" by (simp add: plugin_sourced_def)
    then show ?thesis using False by (simp add: e Let_def Cons.IH)
  qed
qed

lemma record_plugin_sync_status:
  "get_plugin_status (record_plugin_sync sm meta account) account = meta"
  by (cases account)
     (simp_all add: get_plugin_status_def record_plugin_sync_def save_def Let_def
        dict_get_set or_empty_simps account_plugins_nonempty)

lemma record_plugin_sync_file:
  "sm_file (record_plugin_sync sm meta account)
     = Some (sm_state (record_plugin_sync sm meta account))"
  by (simp add: record_plugin_sync_def save_def Let_def)

lemma update_state_plugins:
  "get_plugin_status (state_manager (update_state self results hashes mcp_scoped now))
       (o_account self)
     = (if plugin_sourced mcp_scoped then extract_plugin_metadata mcp_scoped now
        else get_plugin_status (state_manager self) (o_account self))"
  by (simp add: update_state_def Let_def extract_plugin_metadata_def extract_loop_none
      extract_loop_some record_plugin_sync_status record_targets_plugin_status)
lemma update_state_file:
  "state_manager (update_state self results hashes mcp_scoped now) = state_manager self
   \<or> sm_file (state_manager (update_state self results hashes mcp_scoped now))
       = Some (sm_state (state_manager (update_state self results hashes mcp_scoped now)))"
  using record_targets_file[of results "o_scope self" hashes "o_account self" now
      "state_manager self"]
  by (auto simp: update_state_def Let_def record_plugin_sync_file)

lemma update_state_account: "o_account (update_state self results hashes mcp_scoped now) = o_account self"
  by (simp add: update_state_def Let_def)

lemma run_targets_frame:
  "clock (snd (run_targets reg dry ad res w)) = clock w
   \<and> source_hashes (snd (run_targets reg dry ad res w)) = source_hashes w"
proof (induction reg arbitrary: res w)
  case Nil
  then show ?case by simp
next
  case (Cons r reg)
  obtain t f where r: "r = (t, f)" by (cases r)
  show ?case
    using Cons.IH
    by (cases "f ad (files w)")
       (auto simp: r log_event_def split: sum.splits pyexn.splits)
qed

lemma run_targets_clock:
  "run_targets reg dry ad res w = (r, w') \<Longrightarrow> clock w' = clock w"
  using run_targets_frame[of reg dry ad res w] by simp

lemma run_plugins:
  "get_plugin_status (state_manager (fst (snd (orchestrator_sync_all self w)))) (o_account self)
     = get_plugin_status (state_manager self) (o_account self)
   \<or> (plugin_sourced (get_mcp_servers_with_scope (reader_of self w)) \<and> \<not> dry_run self
      \<and> get_plugin_status (state_manager (fst (snd (orchestrator_sync_all self w))))
            (o_account self)
          = extract_plugin_metadata (get_mcp_servers_with_scope (reader_of self w)) (clock w))"
proof (cases "scan_mcp_env (unicode_upper w)
    (flat_of (get_mcp_servers_with_scope (reader_of self w)))")
  case (Inl e)
  then show ?thesis by (simp add: orchestrator_sync_all_def Let_def)
next
  case (Inr detections)
  show ?thesis
  proof (cases "should_block detections (allow_secrets self) \<or> dry_run self")
    case True
    then show ?thesis using Inr
      by (auto simp: orchestrator_sync_all_def Let_def split: prod.splits)
  next
    case False
    then show ?thesis
      using Inr
      by (auto simp: orchestrator_sync_all_def Let_def update_state_plugins log_event_def
          split: prod.splits dest!: run_targets_clock)
  qed
qed
text \<open>
  Claim C10. The state update of a run calls \<^verbatim>\<open>record_plugin_sync\<close> only when
  discovery found a plugin-sourced MCP server. When it found none, the stored plugins
  section (of the run's account, or the flat one) is after the update what it was before,
  stale entries included, and so it is after the whole run; when it found one, the
  section is replaced by the metadata extracted in this run. A manager the update
  changed is saved to the state file.
\<close>

theorem plugins_section_kept:
  "(\<not> plugin_sourced mcp_scoped \<longrightarrow>
      get_plugin_status (state_manager (update_state self results hashes mcp_scoped now))
        (o_account self)
      = get_plugin_status (state_manager self) (o_account self))
   \<and> (plugin_sourced mcp_scoped \<longrightarrow>
      get_plugin_status (state_manager (update_state self results hashes mcp_scoped now))
        (o_account self)
      = extract_plugin_metadata mcp_scoped now)
   \<and> (state_manager (update_state self results hashes mcp_scoped now) = state_manager self
      \<or> sm_file (state_manager (update_state self results hashes mcp_scoped now))
          = Some (sm_state (state_manager (update_state self results hashes mcp_scoped now))))
   \<and> (\<not> plugin_sourced (get_mcp_servers_with_scope (reader_of self w)) \<longrightarrow>
      get_plugin_status (state_manager (fst (snd (orchestrator_sync_all self w))))
        (o_account self)
      = get_plugin_status (state_manager self) (o_account self))"
  using update_state_file[of self results hashes mcp_scoped now] run_plugins[of self w]
  by (auto simp: update_state_plugins)

theorem plugins_section_kept_witness:
  "\<not> plugin_sourced [(''db'', file_entry ''user'' [(''command'', JStr ''db'')])]
   \<and> get_plugin_status
       (state_manager
          (update_state
             (example_orchestrator\<lparr>state_manager :=
                record_plugin_sync fresh_manager
                  [(JStr ''old-plugin'',
                    \<lparr>version = Some (JStr ''1.0''), mcp_count = Some 1,
                     mcp_servers = [''gone''], pm_last_sync = ''t0''\<rparr>)] None\<rparr>)
             [(''codex'', TargetResults [(''rules'', SyncResult0\<lparr>synced := 1\<rparr>)])]
             [(''/home/u/.claude/CLAUDE.md'', ''h1'')]
             [(''db'', file_entry ''user'' [(''command'', JStr ''db'')])]
             ''t1''))
       None
     = [(JStr ''old-plugin'',
         \<lparr>version = Some (JStr ''1.0''), mcp_count = Some 1,
          mcp_servers = [''gone''], pm_last_sync = ''t0''\<rparr>)]"
  using plugins_section_kept[THEN conjunct1, of
      "[(''db'', file_entry ''user'' [(''command'', JStr ''db'')])]"
      "example_orchestrator\<lparr>state_manager :=
                record_plugin_sync fresh_manager
                  [(JStr ''old-plugin'',
                    \<lparr>version = Some (JStr ''1.0''), mcp_count = Some 1,
                     mcp_servers = [''gone''], pm_last_sync = ''t0''\<rparr>)] None\<rparr>"
      "[(''codex'', TargetResults [(''rules'', SyncResult0\<lparr>synced := 1\<rparr>)])]"
      "[(''/home/u/.claude/CLAUDE.md'', ''h1'')]" "''t1''"]
  by (simp add: plugin_sourced_def file_entry_def example_orchestrator_def
      record_plugin_sync_def save_def fresh_manager_def get_plugin_status_def or_empty_def
      Let_def)

subsection \<open>The secret gate of a run\<close>

text \<open>
  Claim C1. When the scan of the MCP environment variables of a run returns at least one
  detection and the run has no \<open>allow_secrets\<close> override, \<^verbatim>\<open>sync_all\<close> returns the
  blocked result (\<open>_blocked\<close> true, the reason \<open>secrets_detected\<close> and the formatted
  warnings); the orchestrator with its state manager, in memory and on disk, and the
  targets' files are as before, and the run did nothing but log one warning: no adapter
  was called, no backup or link was touched.
\<close>

theorem secrets_block_run:
  assumes "scan_mcp_env (unicode_upper w)
               (flat_of (get_mcp_servers_with_scope (reader_of self w)))
             = Inr detections"
      and "detections \<noteq> []"
      and "\<not> allow_secrets self"
  shows "orchestrator_sync_all self w =
     (Inr [(''_blocked'', Flag True),
           (''_reason'', Text ''secrets_detected''),
           (''_warnings'', Text (format_warnings detections))],
      self,
      w\<lparr>events := events w
            @ [Warn ''Sync blocked: secrets detected in environment variables'']\<rparr>)"
  using assms
  by (simp add: orchestrator_sync_all_def Let_def should_block_def log_event_def)

lemma example_scan:
  "scan_mcp_env (unicode_upper (example_world u))
     (flat_of (get_mcp_servers_with_scope (reader_of example_orchestrator (example_world u))))
   = Inr [\<lparr>var_name = ''API_KEY'', keywords_matched = [''API_KEY''],
           confidence = ''medium'', reason = ''Contains keywords: API_KEY''\<rparr>]"
  by (simp add: scan_mcp_env_def scan_def flat_of_def get_mcp_servers_with_scope_def
      reader_of_def example_orchestrator_def example_world_def file_entry_def
      dict_get_def dict_set_def Let_def upper_def upper_char_def is_ascii_def SAFE_PREFIXES_def
      SECRET_KEYWORDS_def SECRET_VALUE_PATTERN_match_def value_char_def ascii_lowercase_def
      ascii_uppercase_def digits_def)

theorem secrets_block_run_witness:
  "\<forall>u. orchestrator_sync_all example_orchestrator (example_world u) =
     (Inr [(''_blocked'', Flag True),
           (''_reason'', Text ''secrets_detected''),
           (''_warnings'', Text (format_warnings
              [\<lparr>var_name = ''API_KEY'', keywords_matched = [''API_KEY''],
                confidence = ''medium'', reason = ''Contains keywords: API_KEY''\<rparr>]))],
      example_orchestrator,
      (example_world u)\<lparr>events :=
         [Warn ''Sync blocked: secrets detected in environment variables'']\<rparr>)"
proof
  fix u
  show "orchestrator_sync_all example_orchestrator (example_world u) =
     (Inr [(''_blocked'', Flag True),
           (''_reason'', Text ''secrets_detected''),
           (''_warnings'', Text (format_warnings
              [\<lparr>var_name = ''API_KEY'', keywords_matched = [''API_KEY''],
                confidence = ''medium'', reason = ''Contains keywords: API_KEY''\<rparr>]))],
      example_orchestrator,
      (example_world u)\<lparr>events :=
         [Warn ''Sync blocked: secrets detected in environment variables'']\<rparr>)"
    using secrets_block_run[OF example_scan[of u]]
    by (simp add: example_orchestrator_def) (simp add: example_world_def)
qed

text \<open>
  The same run with the override flag is not blocked: the adapter is called, the target's
  files change and the outcome is recorded and saved.
\<close>

lemma example_run_allowed:
  "(case orchestrator_sync_all (example_orchestrator\<lparr>allow_secrets := True\<rparr>)
          (example_world u) of
      (res, self', w') \<Rightarrow>
        res = Inr [(''codex'', TargetResults [(''rules'', SyncResult0\<lparr>synced := 1\<rparr>)])]
        \<and> events w' = [AdapterSyncAll ''codex'', SymlinkCleanup, BackupCleanup ''codex'']
        \<and> files w' = 1
        \<and> map_option ts_status (get_target_status (state_manager self') ''codex'')
            = Some ''success''
        \<and> sm_file (state_manager self') = Some (sm_state (state_manager self')))"
proof -
  have r: "reader_of (example_orchestrator\<lparr>allow_secrets := True\<rparr>) (example_world u)
         = reader_of example_orchestrator (example_world u)"
    by (simp add: reader_of_def example_orchestrator_def)
  show ?thesis
    unfolding orchestrator_sync_all_def Let_def r example_scan
    by (simp add: should_block_def example_orchestrator_def example_world_def
        any_conflicts_def log_event_def has_issues_def SyncResult0_def update_state_def
        extract_plugin_metadata_def get_mcp_servers_with_scope_def reader_of_def
        file_entry_def dict_set_def dict_keys_def dict_get_def sum_counts_def record_sync_def
        save_def fresh_manager_def get_target_status_def or_empty_def Let_def)
qed

end
